theory Spec2Isabelle
  imports Complex_Main
begin

section \<open>Values of the request and of the store\<close>

text \<open>
  The routes are Express handlers \<^verbatim>\<open>async (req, res) => { try { ... } catch { 500 } }\<close>.
  Each handler is a function from the world before the request to the response and the
  world after it.  The middleware in front of a handler is outside the model: the parsed
  multipart request (\<^verbatim>\<open>req.body\<close>, \<^verbatim>\<open>req.file\<close>, \<^verbatim>\<open>req.files\<close>) is the handler's argument,
  and \<^verbatim>\<open>authAdmin\<close> (its file is not among the source files) has already passed the request on.

  A text field of a multipart body is a string or \<^verbatim>\<open>undefined\<close>: \<open>None\<close> is
  \<^verbatim>\<open>undefined\<close>.  The falsy values among them are \<^verbatim>\<open>undefined\<close> and the empty string.
\<close>

type_synonym objectId = string
type_synonym buffer = string

definition truthy :: "string option \<Rightarrow> bool" where
  "truthy v = (case v of None \<Rightarrow> False | Some s \<Rightarrow> s \<noteq> [])"

text \<open>\<^verbatim>\<open>a || b\<close>\<close>

definition js_or :: "string option \<Rightarrow> string option \<Rightarrow> string option" where
  "js_or a b = (if truthy a then a else b)"

text \<open>A value inside a template literal: \<^verbatim>\<open>`${v}`\<close>.\<close>

definition tpl :: "string option \<Rightarrow> string" where
  "tpl v = (case v of None \<Rightarrow> ''undefined'' | Some s \<Rightarrow> s)"

text \<open>
  Modelled from the spec: the Event and Booking models (\<^verbatim>\<open>models/Event.js\<close>,
  \<^verbatim>\<open>models/Booking.js\<close>) are not among the source files.  The records below hold
  the fields the handlers read and write; the spec's data model lists the text fields
  without types, so a text field is stored as the string submitted, the ticket number is
  an integer, and the status of a new booking defaults to \<^verbatim>\<open>Pending\<close>.  The creation
  time stamp plays no part in the handlers modelled and is left out.
\<close>

record eventFields =
  title :: "string option"
  description :: "string option"
  date :: "string option"
  location :: "string option"
  category :: "string option"
  address :: "string option"
  standardPrice :: "string option"
  vipPrice :: "string option"
  eventTime :: "string option"
  refreshments :: "string option"

record event = eventFields +
  event_id :: objectId
  imageUrl :: string
  sponsorLogos :: "string list"

text \<open>\<^verbatim>\<open>req.files\<close> of the event routes: each entry is \<^verbatim>\<open>undefined\<close> or an array of files.\<close>

record eventFiles =
  imageUrlFiles :: "buffer list option"
  sponsorLogosFiles :: "buffer list option"

record bookingFields =
  firstName :: "string option"
  lastName :: "string option"
  contactNumber :: "string option"
  emailAddress :: "string option"
  cityName :: "string option"
  ticketType :: "string option"
  eventId :: "string option"

record booking = bookingFields +
  booking_id :: objectId
  ticketNumber :: int
  receiptImage :: string
  status :: string

record attachment =
  filename :: string
  content :: buffer
  cid :: string

text \<open>
  The markup of a message: either a string, or the fixed ticket template of the second
  version of the booking routes, of which only the interpolated values are kept, in the
  order in which they occur in the template.
\<close>

datatype markup = Markup string | TicketTemplate "string list"

record mail =
  mail_from :: string
  mail_to :: "string option"
  mail_subject :: string
  mail_text :: "string option"
  mail_html :: markup
  mail_attachments :: "attachment list"

datatype dbop =
    EventFindById string
  | EventInsert objectId
  | EventSave objectId
  | EventDeleteOne objectId
  | BookingFindById string
  | BookingFindByIdPopulate string
  | BookingFindOnePopulate string
  | BookingFindByIdAndUpdate string
  | BookingInsert objectId

record world =
  events :: "event list"
  bookings :: "booking list"
  dbLog :: "dbop list"
  uploadLog :: "(string \<times> buffer) list"
  outbox :: "mail list"

text \<open>
  What a request meets outside the process: whether a database call rejects (connection,
  cast or validation failure), what the media store answers, the draw of
  \<^verbatim>\<open>Math.random()\<close> (the double as a real number), the identifier the store gives a new document, the store's cast of a
  query string to the number type of \<^verbatim>\<open>ticketNumber\<close>, the QR encoder, the mail
  transport and the process environment.
\<close>

record env =
  dbThrows :: "dbop \<Rightarrow> bool"
  upload_stream :: "string \<Rightarrow> buffer \<Rightarrow> string option"
  random :: real
  newObjectId :: objectId
  castNumber :: "string \<Rightarrow> int option"
  toDataURL :: "string \<Rightarrow> string option"
  toBuffer :: "string \<Rightarrow> buffer option"
  sendMailThrows :: "mail \<Rightarrow> bool"
  CLIENT_URI :: "string option"
  EMAIL_USER :: "string option"

datatype error = DbError dbop | UploadError | TypeError | QrError | MailError

datatype payload =
    Message string
  | MessageError string error
  | EventDoc event
  | BookingCreated string booking
  | StatusUpdated string booking
  | Verify bool string "(booking \<times> event option) option"
  | EmailSent string "string option"

datatype response = Response (statusCode: nat) (json: payload)

section \<open>Awaited calls and the handler's try/catch\<close>

type_synonym 'a io = "world \<Rightarrow> (error + 'a) \<times> world"

definition resolve :: "'a \<Rightarrow> 'a io" where
  "resolve x w = (Inr x, w)"

definition reject :: "error \<Rightarrow> 'a io" where
  "reject e w = (Inl e, w)"

definition andThen :: "'a io \<Rightarrow> ('a \<Rightarrow> 'b io) \<Rightarrow> 'b io" where
  "andThen m f w = (case m w of (Inl e, w') \<Rightarrow> (Inl e, w') | (Inr x, w') \<Rightarrow> f x w')"

text \<open>\<^verbatim>\<open>catch (err) { res.status(500).json({ message }) }\<close>\<close>

definition catch500 :: "string \<Rightarrow> response io \<Rightarrow> world \<Rightarrow> response \<times> world" where
  "catch500 msg body w =
     (case body w of
        (Inl e, w') \<Rightarrow> (Response 500 (Message msg), w')
      | (Inr r, w') \<Rightarrow> (r, w'))"

text \<open>\<^verbatim>\<open>catch (error) { res.status(500).json({ message, error }) }\<close>\<close>

definition catch500error :: "string \<Rightarrow> response io \<Rightarrow> world \<Rightarrow> response \<times> world" where
  "catch500error msg body w =
     (case body w of
        (Inl e, w') \<Rightarrow> (Response 500 (MessageError msg e), w')
      | (Inr r, w') \<Rightarrow> (r, w'))"

section \<open>The persistence layer\<close>

text \<open>
  Modelled from the spec: the calls on the two models (\<^verbatim>\<open>findById\<close>, \<^verbatim>\<open>findOne\<close>,
  \<^verbatim>\<open>findByIdAndUpdate\<close>, \<^verbatim>\<open>save\<close>, \<^verbatim>\<open>deleteOne\<close>, \<^verbatim>\<open>populate\<close>) belong to the model
  files that are not among the source files.  A collection is the list of its documents
  in insertion order; a call is logged, rejects when the environment says so, and
  otherwise reads or changes the first document with the identifier.  Identifiers are
  compared as strings.  Inserting an identifier already present rejects (duplicate key).
\<close>

definition logged :: "dbop \<Rightarrow> world \<Rightarrow> world" where
  "logged op w = w\<lparr>dbLog := dbLog w @ [op]\<rparr>"

fun updateFirst :: "('a \<Rightarrow> bool) \<Rightarrow> ('a \<Rightarrow> 'a) \<Rightarrow> 'a list \<Rightarrow> 'a list" where
  "updateFirst p f [] = []"
| "updateFirst p f (x # xs) = (if p x then f x # xs else x # updateFirst p f xs)"

fun removeFirst :: "('a \<Rightarrow> bool) \<Rightarrow> 'a list \<Rightarrow> 'a list" where
  "removeFirst p [] = []"
| "removeFirst p (x # xs) = (if p x then xs else x # removeFirst p xs)"

definition Event_findById :: "env \<Rightarrow> string \<Rightarrow> event option io" where
  "Event_findById env i w =
     (if dbThrows env (EventFindById i) then (Inl (DbError (EventFindById i)), logged (EventFindById i) w)
      else (Inr (find (\<lambda>e. event_id e = i) (events w)), logged (EventFindById i) w))"

definition Event_insert :: "env \<Rightarrow> event \<Rightarrow> event io" where
  "Event_insert env ev w =
     (if dbThrows env (EventInsert (event_id ev)) \<or> find (\<lambda>e. event_id e = event_id ev) (events w) \<noteq> None
      then (Inl (DbError (EventInsert (event_id ev))), logged (EventInsert (event_id ev)) w)
      else (Inr ev, logged (EventInsert (event_id ev)) (w\<lparr>events := events w @ [ev]\<rparr>)))"

definition Event_save :: "env \<Rightarrow> event \<Rightarrow> event io" where
  "Event_save env ev w =
     (if dbThrows env (EventSave (event_id ev))
      then (Inl (DbError (EventSave (event_id ev))), logged (EventSave (event_id ev)) w)
      else (Inr ev, logged (EventSave (event_id ev))
              (w\<lparr>events := updateFirst (\<lambda>e. event_id e = event_id ev) (\<lambda>_. ev) (events w)\<rparr>)))"

definition Event_deleteOne :: "env \<Rightarrow> event \<Rightarrow> unit io" where
  "Event_deleteOne env ev w =
     (if dbThrows env (EventDeleteOne (event_id ev))
      then (Inl (DbError (EventDeleteOne (event_id ev))), logged (EventDeleteOne (event_id ev)) w)
      else (Inr (), logged (EventDeleteOne (event_id ev))
              (w\<lparr>events := removeFirst (\<lambda>e. event_id e = event_id ev) (events w)\<rparr>)))"

text \<open>\<^verbatim>\<open>.populate("eventId")\<close>: the referenced event, or \<^verbatim>\<open>null\<close> when there is none.\<close>

definition populate :: "world \<Rightarrow> booking \<Rightarrow> booking \<times> event option" where
  "populate w b = (b, find (\<lambda>e. Some (event_id e) = eventId b) (events w))"

definition Booking_findById :: "env \<Rightarrow> string \<Rightarrow> booking option io" where
  "Booking_findById env i w =
     (if dbThrows env (BookingFindById i) then (Inl (DbError (BookingFindById i)), logged (BookingFindById i) w)
      else (Inr (find (\<lambda>b. booking_id b = i) (bookings w)), logged (BookingFindById i) w))"

definition Booking_findById_populate :: "env \<Rightarrow> string \<Rightarrow> (booking \<times> event option) option io" where
  "Booking_findById_populate env i w =
     (if dbThrows env (BookingFindByIdPopulate i)
      then (Inl (DbError (BookingFindByIdPopulate i)), logged (BookingFindByIdPopulate i) w)
      else (Inr (map_option (populate w) (find (\<lambda>b. booking_id b = i) (bookings w))),
            logged (BookingFindByIdPopulate i) w))"

text \<open>
  \<^verbatim>\<open>Booking.findOne({ ticketNumber }).populate("eventId")\<close> with the string of the path:
  the store casts it to a number, and a string that is no number rejects.
\<close>

definition Booking_findOne_populate :: "env \<Rightarrow> string \<Rightarrow> (booking \<times> event option) option io" where
  "Booking_findOne_populate env t w =
     (if dbThrows env (BookingFindOnePopulate t)
      then (Inl (DbError (BookingFindOnePopulate t)), logged (BookingFindOnePopulate t) w)
      else (case castNumber env t of
              None \<Rightarrow> (Inl (DbError (BookingFindOnePopulate t)), logged (BookingFindOnePopulate t) w)
            | Some n \<Rightarrow>
                (Inr (map_option (populate w) (find (\<lambda>b. ticketNumber b = n) (bookings w))),
                 logged (BookingFindOnePopulate t) w)))"

text \<open>\<^verbatim>\<open>Booking.findByIdAndUpdate(id, { status }, { new: true })\<close>\<close>

definition Booking_findByIdAndUpdate :: "env \<Rightarrow> string \<Rightarrow> string \<Rightarrow> booking option io" where
  "Booking_findByIdAndUpdate env i s w =
     (if dbThrows env (BookingFindByIdAndUpdate i)
      then (Inl (DbError (BookingFindByIdAndUpdate i)), logged (BookingFindByIdAndUpdate i) w)
      else (Inr (map_option (\<lambda>b. b\<lparr>status := s\<rparr>) (find (\<lambda>b. booking_id b = i) (bookings w))),
            logged (BookingFindByIdAndUpdate i)
              (w\<lparr>bookings := updateFirst (\<lambda>b. booking_id b = i) (\<lambda>b. b\<lparr>status := s\<rparr>) (bookings w)\<rparr>)))"

definition Booking_insert :: "env \<Rightarrow> booking \<Rightarrow> booking io" where
  "Booking_insert env b w =
     (if dbThrows env (BookingInsert (booking_id b)) \<or> find (\<lambda>x. booking_id x = booking_id b) (bookings w) \<noteq> None
      then (Inl (DbError (BookingInsert (booking_id b))), logged (BookingInsert (booking_id b)) w)
      else (Inr b, logged (BookingInsert (booking_id b)) (w\<lparr>bookings := bookings w @ [b]\<rparr>)))"

section \<open>The media store adapter\<close>

text \<open>
  \<^verbatim>\<open>uploadToCloudinary(buffer, folder)\<close> (event routes) and
  \<^verbatim>\<open>uploadBufferToCloudinary(buffer, folder)\<close> followed by \<^verbatim>\<open>.secure_url\<close> (booking
  routes): the call is recorded, and resolves to the URL or rejects.
\<close>

definition uploadToCloudinary :: "env \<Rightarrow> buffer \<Rightarrow> string \<Rightarrow> string io" where
  "uploadToCloudinary env buf folder w =
     (case upload_stream env folder buf of
        None \<Rightarrow> (Inl UploadError, w\<lparr>uploadLog := uploadLog w @ [(folder, buf)]\<rparr>)
      | Some u \<Rightarrow> (Inr u, w\<lparr>uploadLog := uploadLog w @ [(folder, buf)]\<rparr>))"

text \<open>
  \<^verbatim>\<open>for (let file of req.files.sponsorLogos) { const url = await upload(...); sponsorLogos.push(url); }\<close>
\<close>

fun uploadSponsorLogos :: "env \<Rightarrow> buffer list \<Rightarrow> string list \<Rightarrow> string list io" where
  "uploadSponsorLogos env [] acc w = (Inr acc, w)"
| "uploadSponsorLogos env (f # fs) acc w =
     (case uploadToCloudinary env f ''events/sponsors'' w of
        (Inl e, w') \<Rightarrow> (Inl e, w')
      | (Inr u, w') \<Rightarrow> uploadSponsorLogos env fs (acc @ [u]) w')"

text \<open>\<^verbatim>\<open>await uploadToCloudinary(req.files.imageUrl[0].buffer, "events")\<close>\<close>

definition uploadFirstImage :: "env \<Rightarrow> buffer list \<Rightarrow> string io" where
  "uploadFirstImage env fs =
     (case fs of [] \<Rightarrow> reject TypeError | f # _ \<Rightarrow> uploadToCloudinary env f ''events'')"

section \<open>Event routes\<close>

text \<open>\<^verbatim>\<open>id.match(/^[0-9a-fA-F]{24}$/)\<close>\<close>

definition isHexDigit :: "char \<Rightarrow> bool" where
  "isHexDigit c = (c \<in> set ''0123456789abcdefABCDEF'')"

definition isObjectIdHex :: "string \<Rightarrow> bool" where
  "isObjectIdHex i = (length i = 24 \<and> list_all isHexDigit i)"

text \<open>\<^verbatim>\<open>router.post("/add", ...)\<close>\<close>

definition post_add :: "env \<Rightarrow> eventFields \<Rightarrow> eventFiles \<Rightarrow> world \<Rightarrow> response \<times> world" where
  "post_add env body files =
     catch500 ''Failed to create event''
       (andThen (case imageUrlFiles files of None \<Rightarrow> resolve [] | Some fs \<Rightarrow> uploadFirstImage env fs)
         (\<lambda>image.
       andThen (case sponsorLogosFiles files of None \<Rightarrow> resolve []
                | Some fs \<Rightarrow> uploadSponsorLogos env fs [])
         (\<lambda>logos.
       andThen (Event_insert env
                 \<lparr>title = title body, description = description body, date = date body,
                  location = location body, category = category body, address = address body,
                  standardPrice = standardPrice body, vipPrice = vipPrice body,
                  eventTime = eventTime body, refreshments = refreshments body,
                  event_id = newObjectId env, imageUrl = image, sponsorLogos = logos\<rparr>)
         (\<lambda>savedEvent. resolve (Response 201 (EventDoc savedEvent))))))"

text \<open>\<^verbatim>\<open>router.get("/:id", ...)\<close>\<close>

definition get_event :: "env \<Rightarrow> string \<Rightarrow> world \<Rightarrow> response \<times> world" where
  "get_event env i =
     catch500 ''Failed to fetch event''
       (if \<not> isObjectIdHex i then resolve (Response 400 (Message ''Invalid event ID''))
        else andThen (Event_findById env i)
          (\<lambda>found. case found of
              None \<Rightarrow> resolve (Response 404 (Message ''Event not found''))
            | Some event \<Rightarrow> resolve (Response 200 (EventDoc event))))"

text \<open>
  \<^verbatim>\<open>router.put("/:id", ...)\<close>: the ten assignments \<^verbatim>\<open>event.f = f || event.f\<close>, the two
  optional replacements, then \<^verbatim>\<open>event.save()\<close>.
\<close>

definition assignFields :: "eventFields \<Rightarrow> event \<Rightarrow> event" where
  "assignFields body event =
     event\<lparr>title := js_or (title body) (title event),
           description := js_or (description body) (description event),
           date := js_or (date body) (date event),
           location := js_or (location body) (location event),
           category := js_or (category body) (category event),
           address := js_or (address body) (address event),
           standardPrice := js_or (standardPrice body) (standardPrice event),
           vipPrice := js_or (vipPrice body) (vipPrice event),
           eventTime := js_or (eventTime body) (eventTime event),
           refreshments := js_or (refreshments body) (refreshments event)\<rparr>"

text \<open>\<^verbatim>\<open>if (req.files.imageUrl) { event.imageUrl = await uploadToCloudinary(...); }\<close>\<close>

definition replaceImage :: "env \<Rightarrow> eventFiles \<Rightarrow> event \<Rightarrow> event io" where
  "replaceImage env files event =
     (case imageUrlFiles files of
        None \<Rightarrow> resolve event
      | Some fs \<Rightarrow> andThen (uploadFirstImage env fs) (\<lambda>u. resolve (event\<lparr>imageUrl := u\<rparr>)))"

text \<open>\<^verbatim>\<open>if (req.files.sponsorLogos) { ...; event.sponsorLogos = sponsorLogos; }\<close>\<close>

definition replaceSponsorLogos :: "env \<Rightarrow> eventFiles \<Rightarrow> event \<Rightarrow> event io" where
  "replaceSponsorLogos env files event =
     (case sponsorLogosFiles files of
        None \<Rightarrow> resolve event
      | Some fs \<Rightarrow> andThen (uploadSponsorLogos env fs []) (\<lambda>logos. resolve (event\<lparr>sponsorLogos := logos\<rparr>)))"

definition put_event :: "env \<Rightarrow> string \<Rightarrow> eventFields \<Rightarrow> eventFiles \<Rightarrow> world \<Rightarrow> response \<times> world" where
  "put_event env i body files =
     catch500 ''Failed to update event''
       (if \<not> isObjectIdHex i then resolve (Response 400 (Message ''Invalid event ID''))
        else andThen (Event_findById env i)
          (\<lambda>found. case found of
              None \<Rightarrow> resolve (Response 404 (Message ''Event not found''))
            | Some event \<Rightarrow>
                andThen (replaceImage env files (assignFields body event))
                  (\<lambda>event1.
                andThen (replaceSponsorLogos env files event1)
                  (\<lambda>event2.
                andThen (Event_save env event2)
                  (\<lambda>updatedEvent. resolve (Response 200 (EventDoc updatedEvent)))))))"

text \<open>\<^verbatim>\<open>router.delete("/:id", ...)\<close>\<close>

definition delete_event :: "env \<Rightarrow> string \<Rightarrow> world \<Rightarrow> response \<times> world" where
  "delete_event env i =
     catch500 ''Failed to delete event''
       (if \<not> isObjectIdHex i then resolve (Response 400 (Message ''Invalid event ID''))
        else andThen (Event_findById env i)
          (\<lambda>found. case found of
              None \<Rightarrow> resolve (Response 404 (Message ''Event not found''))
            | Some event \<Rightarrow>
                andThen (Event_deleteOne env event)
                  (\<lambda>_. resolve (Response 200 (Message ''Event deleted successfully'')))))"

section \<open>Ticket issuance\<close>

text \<open>
  JavaScript numbers are IEEE 754 binary64.  A real number is rounded to the nearest
  number with a 53-bit significand, ties to the even significand; below \<^verbatim>\<open>2^-1022\<close> the
  spacing stays that of the smallest normal numbers.  Overflow to infinity (magnitudes of
  \<^verbatim>\<open>2^1024\<close> and more) is left out: the computation below stays under \<^verbatim>\<open>2^20\<close>.
\<close>

definition exponent :: "real \<Rightarrow> int" where
  "exponent x = max \<lfloor>log 2 \<bar>x\<bar>\<rfloor> (- 1022)"

definition ulp :: "real \<Rightarrow> real" where
  "ulp x = 2 powr of_int (exponent x - 52)"

definition roundTiesToEven :: "real \<Rightarrow> int" where
  "roundTiesToEven t =
     (if t - of_int \<lfloor>t\<rfloor> < 1 / 2 then \<lfloor>t\<rfloor>
      else if 1 / 2 < t - of_int \<lfloor>t\<rfloor> then \<lfloor>t\<rfloor> + 1
      else if even \<lfloor>t\<rfloor> then \<lfloor>t\<rfloor> else \<lfloor>t\<rfloor> + 1)"

text \<open>The double nearest to a real number, and the reals that are doubles.\<close>

definition fl :: "real \<Rightarrow> real" where
  "fl x = ulp x * of_int (roundTiesToEven (x / ulp x))"

definition isDouble :: "real \<Rightarrow> bool" where
  "isDouble x = (fl x = x)"

text \<open>
  \<^verbatim>\<open>const ticketNumber = Math.floor(100000 + Math.random() * 900000);\<close>
  (booking routes, both versions).  The double drawn from \<^verbatim>\<open>Math.random()\<close> is the
  argument; the product and the sum are each rounded to a double, and \<^verbatim>\<open>Math.floor\<close>
  of a double is exact.
\<close>

definition generateTicketNumber :: "real \<Rightarrow> int" where
  "generateTicketNumber r = \<lfloor>fl (100000 + fl (r * 900000))\<rfloor>"

text \<open>
  Rendering of an integer by a template literal (\<^verbatim>\<open>`${booking.ticketNumber}`\<close>):
  decimal digits, most significant first, with a leading minus sign below zero.
\<close>

definition digitChar :: "nat \<Rightarrow> char" where
  "digitChar d = ''0123456789'' ! d"

fun showNat :: "nat \<Rightarrow> string" where
  "showNat n = (if n < 10 then [digitChar n] else showNat (n div 10) @ [digitChar (n mod 10)])"

declare showNat.simps [simp del]

definition showInt :: "int \<Rightarrow> string" where
  "showInt i = (if i < 0 then CHR ''-'' # showNat (nat (- i)) else showNat (nat i))"

section \<open>Booking routes\<close>

text \<open>
  The source holds two versions of the booking routes.  Their handlers for creation, status
  update and verification are the same code (up to layout), so each is modelled once; the
  two handlers for sending the ticket differ and are modelled separately.

  \<^verbatim>\<open>router.post("/booking/create", upload.single("receiptImage"), ...)\<close>
\<close>

definition post_booking_create :: "env \<Rightarrow> bookingFields \<Rightarrow> buffer option \<Rightarrow> world \<Rightarrow> response \<times> world" where
  "post_booking_create env body file =
     catch500error ''Booking failed''
       (case file of
          None \<Rightarrow> resolve (Response 400 (Message ''Receipt image is required''))
        | Some buf \<Rightarrow>
            if \<not> truthy (eventId body) then resolve (Response 400 (Message ''eventId is required''))
            else andThen (uploadToCloudinary env buf ''receipts'')
              (\<lambda>secure_url.
            andThen (Booking_insert env
                      \<lparr>firstName = firstName body, lastName = lastName body,
                       contactNumber = contactNumber body, emailAddress = emailAddress body,
                       cityName = cityName body, ticketType = ticketType body,
                       eventId = eventId body, booking_id = newObjectId env,
                       ticketNumber = generateTicketNumber (random env),
                       receiptImage = secure_url, status = ''Pending''\<rparr>)
              (\<lambda>newBooking.
                 resolve (Response 201 (BookingCreated ''Booking created successfully'' newBooking)))))"

text \<open>
  \<^verbatim>\<open>router.put("/booking/update-status/:id", ...)\<close>.  The status of the body is a string or
  something else; whatever is not a string is in no case included in the list and is
  \<open>None\<close> here, so that the test \<^verbatim>\<open>!validStatuses.includes(status)\<close> succeeds for \<open>None\<close>.
\<close>

definition validStatuses :: "string list" where
  "validStatuses = [''Pending'', ''Paid'', ''Unpaid'', ''Cancelled'']"

definition js_includes :: "string list \<Rightarrow> string option \<Rightarrow> bool" where
  "js_includes xs v = (case v of None \<Rightarrow> False | Some s \<Rightarrow> s \<in> set xs)"

definition put_update_status :: "env \<Rightarrow> string \<Rightarrow> string option \<Rightarrow> world \<Rightarrow> response \<times> world" where
  "put_update_status env i st =
     catch500error ''Failed to update status''
       (case st of
          None \<Rightarrow> resolve (Response 400 (Message ''Invalid status value''))
        | Some s \<Rightarrow>
            if \<not> js_includes validStatuses (Some s)
            then resolve (Response 400 (Message ''Invalid status value''))
            else andThen (Booking_findByIdAndUpdate env i s)
              (\<lambda>updated. case updated of
                  None \<Rightarrow> resolve (Response 404 (Message ''Booking not found''))
                | Some b \<Rightarrow> resolve (Response 200 (StatusUpdated ''Status updated successfully'' b))))"

text \<open>\<^verbatim>\<open>router.get("/booking/verify/:ticketNumber", ...)\<close>\<close>

definition get_verify :: "env \<Rightarrow> string \<Rightarrow> world \<Rightarrow> response \<times> world" where
  "get_verify env t =
     catch500error ''Verification failed''
       (andThen (Booking_findOne_populate env t)
          (\<lambda>found. case found of
              None \<Rightarrow> resolve (Response 404 (Verify False ''Invalid ticket. No matching record found.'' None))
            | Some b \<Rightarrow> resolve (Response 200 (Verify True ''Ticket is valid'' (Some b)))))"

section \<open>Notification dispatch\<close>

text \<open>
  \<^verbatim>\<open>htmlContent.replace("{{QR_CODE}}", qrCodeDataURL)\<close>: the first occurrence of the
  pattern is replaced; in the replacement, \<^verbatim>\<open>$$\<close> stands for a dollar sign, \<^verbatim>\<open>$&\<close> for
  the match, and a dollar sign followed by a backquote or a quote for the text before or
  after the match.
\<close>

fun find_first :: "string \<Rightarrow> string \<Rightarrow> (string \<times> string) option" where
  "find_first pat [] = (if pat = [] then Some ([], []) else None)"
| "find_first pat (c # cs) =
     (if take (length pat) (c # cs) = pat then Some ([], drop (length pat) (c # cs))
      else map_option (\<lambda>(pre, post). (c # pre, post)) (find_first pat cs))"

fun getSubstitution :: "string \<Rightarrow> string \<Rightarrow> string \<Rightarrow> string \<Rightarrow> string" where
  "getSubstitution matched pre post (c # d # r) =
     (if c = CHR 0x24 \<and> d = CHR 0x24 then CHR 0x24 # getSubstitution matched pre post r
      else if c = CHR 0x24 \<and> d = CHR 0x26 then matched @ getSubstitution matched pre post r
      else if c = CHR 0x24 \<and> d = CHR 0x60 then pre @ getSubstitution matched pre post r
      else if c = CHR 0x24 \<and> d = CHR 0x27 then post @ getSubstitution matched pre post r
      else c # getSubstitution matched pre post (d # r))"
| "getSubstitution matched pre post r = r"

definition js_replace :: "string \<Rightarrow> string \<Rightarrow> string \<Rightarrow> string" where
  "js_replace s pat rep =
     (case find_first pat s of
        None \<Rightarrow> s
      | Some (pre, post) \<Rightarrow> pre @ getSubstitution pat pre post rep @ post)"

definition QRCode_toDataURL :: "env \<Rightarrow> string \<Rightarrow> string io" where
  "QRCode_toDataURL env u = (case toDataURL env u of None \<Rightarrow> reject QrError | Some q \<Rightarrow> resolve q)"

definition QRCode_toBuffer :: "env \<Rightarrow> string \<Rightarrow> buffer io" where
  "QRCode_toBuffer env u = (case toBuffer env u of None \<Rightarrow> reject QrError | Some q \<Rightarrow> resolve q)"

definition sendMail :: "env \<Rightarrow> mail \<Rightarrow> unit io" where
  "sendMail env m w =
     (if sendMailThrows env m then (Inl MailError, w)
      else (Inr (), w\<lparr>outbox := outbox w @ [m]\<rparr>))"

text \<open>\<^verbatim>\<open>from: `"Event Ticket" <${process.env.EMAIL_USER}>`\<close>\<close>

definition sender :: "env \<Rightarrow> string" where
  "sender env = [CHR 0x22] @ ''Event Ticket'' @ [CHR 0x22] @ '' <'' @ tpl (EMAIL_USER env) @ ''>''"

record emailBody =
  subject :: "string option"
  message :: "string option"
  htmlContent :: "string option"

text \<open>
  First version: \<^verbatim>\<open>router.post("/booking/send-email/:id", ...)\<close>.  The verification URL
  and the message handed to \<^verbatim>\<open>transporter.sendMail\<close> are named, the handler follows.
\<close>

definition verificationURL_v1 :: "booking \<Rightarrow> string" where
  "verificationURL_v1 b = ''https://your-domain.com/verify-ticket/'' @ showInt (ticketNumber b)"

definition ticketMail_v1 :: "env \<Rightarrow> emailBody \<Rightarrow> string \<Rightarrow> booking \<Rightarrow> string \<Rightarrow> mail" where
  "ticketMail_v1 env body h b qrCodeDataURL =
     \<lparr>mail_from = sender env, mail_to = emailAddress b,
      mail_subject = tpl (js_or (subject body) (Some ''Your Ticket'')),
      mail_text = js_or (message body) (Some ''Here is your ticket''),
      mail_html = Markup (js_replace h ''{{QR_CODE}}'' qrCodeDataURL),
      mail_attachments = []\<rparr>"

definition post_send_email_v1 :: "env \<Rightarrow> string \<Rightarrow> emailBody \<Rightarrow> world \<Rightarrow> response \<times> world" where
  "post_send_email_v1 env i body =
     catch500error ''Email sending failed''
       (case htmlContent body of
          None \<Rightarrow> resolve (Response 400 (Message ''htmlContent is required''))
        | Some h \<Rightarrow>
            if h = [] then resolve (Response 400 (Message ''htmlContent is required''))
            else andThen (Booking_findById env i)
              (\<lambda>found. case found of
                  None \<Rightarrow> resolve (Response 404 (Message ''Booking not found''))
                | Some b \<Rightarrow>
                    andThen (QRCode_toDataURL env (verificationURL_v1 b))
                      (\<lambda>qrCodeDataURL.
                    andThen (sendMail env (ticketMail_v1 env body h b qrCodeDataURL))
                      (\<lambda>_. resolve (Response 200
                                      (EmailSent ''Email sent successfully'' (Some qrCodeDataURL)))))))"

text \<open>
  Second version: the booking is read with its event, the QR code is a buffer attached
  under a content id, and the markup is the fixed template.  The interpolated values, in
  order: event title, ticket number, first name, last name, ticket type, city, event
  date, event time, event address.
\<close>

definition eventField :: "(event \<Rightarrow> string option) \<Rightarrow> event option \<Rightarrow> string" where
  "eventField f ev = (case ev of None \<Rightarrow> ''undefined'' | Some e \<Rightarrow> tpl (f e))"

definition emailTemplate :: "booking \<times> event option \<Rightarrow> markup" where
  "emailTemplate pb =
     (case pb of (b, ev) \<Rightarrow>
        TicketTemplate
          [eventField title ev, showInt (ticketNumber b), tpl (firstName b), tpl (lastName b),
           tpl (ticketType b), tpl (cityName b), eventField date ev, eventField eventTime ev,
           eventField address ev])"

definition verificationURL_v2 :: "env \<Rightarrow> booking \<Rightarrow> string" where
  "verificationURL_v2 env b = tpl (CLIENT_URI env) @ ''/verify-ticket/'' @ showInt (ticketNumber b)"

definition ticketMail_v2 :: "env \<Rightarrow> emailBody \<Rightarrow> booking \<times> event option \<Rightarrow> buffer \<Rightarrow> mail" where
  "ticketMail_v2 env body pb qrBuffer =
     \<lparr>mail_from = sender env, mail_to = emailAddress (fst pb),
      mail_subject = tpl (js_or (subject body) (Some ''Your Ticket'')),
      mail_text = None,
      mail_html = emailTemplate pb,
      mail_attachments = [\<lparr>filename = ''qrcode.png'', content = qrBuffer, cid = ''qrCodeImg''\<rparr>]\<rparr>"

definition post_send_email_v2 :: "env \<Rightarrow> string \<Rightarrow> emailBody \<Rightarrow> world \<Rightarrow> response \<times> world" where
  "post_send_email_v2 env i body =
     catch500error ''Email sending failed''
       (andThen (Booking_findById_populate env i)
          (\<lambda>found. case found of
              None \<Rightarrow> resolve (Response 404 (Message ''Booking not found''))
            | Some pb \<Rightarrow>
                andThen (QRCode_toBuffer env (verificationURL_v2 env (fst pb)))
                  (\<lambda>qrBuffer.
                andThen (sendMail env (ticketMail_v2 env body pb qrBuffer))
                  (\<lambda>_. resolve (Response 200 (EmailSent ''Email sent successfully'' None))))))"

section \<open>A sample store and environment\<close>

text \<open>
  One event and one booking for it, in an environment where no call fails; the theorems
  below are instantiated on them.
\<close>

definition sampleEvent :: event where
  "sampleEvent =
     \<lparr>title = Some ''Concert'', description = Some ''Live music'', date = Some ''2025-01-01'',
      location = Some ''Lahore'', category = Some ''Music'', address = Some ''1 Mall Road'',
      standardPrice = Some ''1000'', vipPrice = Some ''2500'', eventTime = Some ''19:00'',
      refreshments = Some [], event_id = ''aaaaaaaaaaaaaaaaaaaaaaaa'',
      imageUrl = ''https://media.example/events/poster'', sponsorLogos = []\<rparr>"

definition sampleBooking :: booking where
  "sampleBooking =
     \<lparr>firstName = Some ''Ann'', lastName = Some ''Lee'', contactNumber = Some ''0300'',
      emailAddress = Some ''ann@example.com'', cityName = Some ''Lahore'',
      ticketType = Some ''VIP'', eventId = Some ''aaaaaaaaaaaaaaaaaaaaaaaa'',
      booking_id = ''bbbbbbbbbbbbbbbbbbbbbbbb'', ticketNumber = 550000,
      receiptImage = ''https://media.example/receipts/r1'', status = ''Pending''\<rparr>"

definition sampleWorld :: world where
  "sampleWorld =
     \<lparr>events = [sampleEvent], bookings = [sampleBooking], dbLog = [], uploadLog = [], outbox = []\<rparr>"

definition sampleEnv :: env where
  "sampleEnv =
     \<lparr>dbThrows = (\<lambda>_. False),
      upload_stream = (\<lambda>folder buf. Some (''https://media.example/'' @ folder @ ''/'' @ buf)),
      random = 9007199254740991 / 18014398509481984,
      newObjectId = ''cccccccccccccccccccccccc'',
      castNumber = (\<lambda>s. if s = ''550000'' then Some 550000
                          else if s = ''123456'' then Some 123456 else None),
      toDataURL = (\<lambda>u. Some (''data:image/png;base64,'' @ u)),
      toBuffer = (\<lambda>u. Some (''PNG:'' @ u)),
      sendMailThrows = (\<lambda>_. False),
      CLIENT_URI = Some ''https://client.example'',
      EMAIL_USER = Some ''tickets@example.com''\<rparr>"

text \<open>
  The scenario of the spec: a creation payload, an update that supplies a new title and a
  new image only, the same update with two sponsor logos attached, a booking request with
  the booking it creates, and a request for the ticket mail.  The draw of the sample
  environment is the double \<^verbatim>\<open>1/2 - 2^-54\<close>, where the sum of the ticket number is rounded
  at a tie.
\<close>

definition sampleCreate :: eventFields where
  "sampleCreate =
     \<lparr>title = Some ''Concert'', description = Some ''Live music'', date = Some ''2025-01-01'',
      location = Some ''Lahore'', category = Some ''Music'', address = Some ''1 Mall Road'',
      standardPrice = Some ''1000'', vipPrice = Some ''2500'', eventTime = Some ''19:00'',
      refreshments = None\<rparr>"

definition sampleCreated :: event where
  "sampleCreated =
     \<lparr>title = Some ''Concert'', description = Some ''Live music'', date = Some ''2025-01-01'',
      location = Some ''Lahore'', category = Some ''Music'', address = Some ''1 Mall Road'',
      standardPrice = Some ''1000'', vipPrice = Some ''2500'', eventTime = Some ''19:00'',
      refreshments = None, event_id = ''cccccccccccccccccccccccc'',
      imageUrl = ''https://media.example/events/img2'', sponsorLogos = []\<rparr>"

definition sampleUpdate :: eventFields where
  "sampleUpdate =
     \<lparr>title = Some ''Gala'', description = None, date = None, location = None, category = None,
      address = None, standardPrice = None, vipPrice = None, eventTime = None,
      refreshments = Some []\<rparr>"

definition sampleFiles :: eventFiles where
  "sampleFiles = \<lparr>imageUrlFiles = Some [''img2''], sponsorLogosFiles = None\<rparr>"


definition sampleBookingRequest :: bookingFields where
  "sampleBookingRequest =
     \<lparr>firstName = Some ''Bob'', lastName = Some ''Ray'', contactNumber = Some ''0301'',
      emailAddress = Some ''bob@example.com'', cityName = Some ''Karachi'',
      ticketType = Some ''Standard'', eventId = Some ''aaaaaaaaaaaaaaaaaaaaaaaa''\<rparr>"

definition sampleNewBooking :: booking where
  "sampleNewBooking =
     \<lparr>firstName = Some ''Bob'', lastName = Some ''Ray'', contactNumber = Some ''0301'',
      emailAddress = Some ''bob@example.com'', cityName = Some ''Karachi'',
      ticketType = Some ''Standard'', eventId = Some ''aaaaaaaaaaaaaaaaaaaaaaaa'',
      booking_id = ''cccccccccccccccccccccccc'', ticketNumber = 550000,
      receiptImage = ''https://media.example/receipts/receipt'', status = ''Pending''\<rparr>"

definition sampleEmailBody :: emailBody where
  "sampleEmailBody =
     \<lparr>subject = None, message = None, htmlContent = Some ''<img src={{QR_CODE}}>''\<rparr>"

section \<open>Auxiliary facts\<close>

lemmas io_defs = resolve_def reject_def andThen_def catch500_def catch500error_def

lemma showNat_small: "n < 10 \<Longrightarrow> showNat n = [digitChar n]"
  by (subst showNat.simps) simp

lemma showNat_large: "10 \<le> n \<Longrightarrow> showNat n = showNat (n div 10) @ [digitChar (n mod 10)]"
  by (subst showNat.simps) simp

lemma showNat_length_6:
  assumes "100000 \<le> n" and "n \<le> 999999"
  shows "length (showNat n) = 6"
proof -
  have s: "\<And>m. showNat m = (if m < 10 then [digitChar m] else showNat (m div 10) @ [digitChar (m mod 10)])"
    by (rule showNat.simps)
  have d6: "n div 10 div 10 div 10 div 10 div 10 < 10" using assms by simp
  have d5: "\<not> n div 10 div 10 div 10 div 10 < 10" using assms by simp
  have d4: "\<not> n div 10 div 10 div 10 < 10" using assms by simp
  have d3: "\<not> n div 10 div 10 < 10" using assms by simp
  have d2: "\<not> n div 10 < 10" using assms by simp
  have d1: "\<not> n < 10" using assms by simp
  show ?thesis
    apply (subst s, simp only: d1 if_False)
    apply (subst s, simp only: d2 if_False)
    apply (subst s, simp only: d3 if_False)
    apply (subst s, simp only: d4 if_False)
    apply (subst s, simp only: d5 if_False)
    apply (subst s, simp only: d6 if_True)
    apply simp
    done
qed

lemma find_absent: "(\<forall>x\<in>set xs. \<not> P x) \<Longrightarrow> find P xs = None"
  by (induction xs) auto

lemma find_first_match:
  "(\<forall>x\<in>set pre. \<not> P x) \<Longrightarrow> P b \<Longrightarrow> find P (pre @ b # post) = Some b"
  by (induction pre) auto

lemma find_updateFirst:
  "find P xs = Some x \<Longrightarrow> P (f x) \<Longrightarrow> find P (updateFirst P f xs) = Some (f x)"
  by (induction xs) (auto split: if_splits)

lemma find_append_new: "find P xs = None \<Longrightarrow> P x \<Longrightarrow> find P (xs @ [x]) = Some x"
  by (induction xs) (auto split: if_splits)

lemma uploadToCloudinary_result:
  "uploadToCloudinary env buf folder w = (r, w') \<Longrightarrow>
     events w' = events w \<and> (\<forall>u. r = Inr u \<longrightarrow> upload_stream env folder buf = Some u)"
  by (auto simp: uploadToCloudinary_def split: option.splits)

lemma uploadFirstImage_result:
  "uploadFirstImage env fs w = (r, w') \<Longrightarrow>
     events w' = events w
     \<and> (\<forall>u. r = Inr u \<longrightarrow> (\<exists>f rest. fs = f # rest \<and> upload_stream env ''events'' f = Some u))"
  by (cases fs) (auto simp: uploadFirstImage_def reject_def dest: uploadToCloudinary_result)

lemma uploadSponsorLogos_result:
  "uploadSponsorLogos env fs acc w = (r, w') \<Longrightarrow>
     events w' = events w
     \<and> (\<forall>urls. r = Inr urls \<longrightarrow>
           (\<exists>us. urls = acc @ us \<and> map (upload_stream env ''events/sponsors'') fs = map Some us))"
proof (induction fs arbitrary: acc w)
  case Nil
  then show ?case by auto
next
  case (Cons f fs)
  show ?case
  proof (cases "uploadToCloudinary env f ''events/sponsors'' w")
    case (Pair r1 w1)
    note up = uploadToCloudinary_result [OF Pair]
    show ?thesis
    proof (cases r1)
      case (Inl e)
      with Cons.prems Pair up show ?thesis by auto
    next
      case (Inr u)
      with Cons.prems Pair have rec: "uploadSponsorLogos env fs (acc @ [u]) w1 = (r, w')" by simp
      from Cons.IH [OF rec] up Inr show ?thesis by auto
    qed
  qed
qed

lemma replaceImage_result:
  assumes "replaceImage env files ev w = (r, w')"
  shows "events w' = events w
     \<and> (\<forall>ev'. r = Inr ev' \<longrightarrow>
          (\<exists>img. ev' = ev\<lparr>imageUrl := img\<rparr>
             \<and> (case imageUrlFiles files of None \<Rightarrow> img = imageUrl ev
                 | Some fs \<Rightarrow> \<exists>f rest. fs = f # rest \<and> upload_stream env ''events'' f = Some img)))"
proof (cases "imageUrlFiles files")
  case None
  with assms show ?thesis by (auto simp: replaceImage_def resolve_def)
next
  case (Some fs)
  obtain r1 w1 where u: "uploadFirstImage env fs w = (r1, w1)" by (cases "uploadFirstImage env fs w")
  from uploadFirstImage_result [OF u] assms Some u show ?thesis
    by (cases r1) (auto simp: replaceImage_def resolve_def andThen_def)
qed

lemma replaceSponsorLogos_result:
  assumes "replaceSponsorLogos env files ev w = (r, w')"
  shows "events w' = events w
     \<and> (\<forall>ev'. r = Inr ev' \<longrightarrow>
          (\<exists>logos. ev' = ev\<lparr>sponsorLogos := logos\<rparr>
             \<and> (case sponsorLogosFiles files of None \<Rightarrow> logos = sponsorLogos ev
                 | Some fs \<Rightarrow> map (upload_stream env ''events/sponsors'') fs = map Some logos)))"
proof (cases "sponsorLogosFiles files")
  case None
  with assms show ?thesis by (auto simp: replaceSponsorLogos_def resolve_def)
next
  case (Some fs)
  obtain r1 w1 where u: "uploadSponsorLogos env fs [] w = (r1, w1)"
    by (cases "uploadSponsorLogos env fs [] w")
  from uploadSponsorLogos_result [OF u] assms Some u show ?thesis
    by (cases r1) (auto simp: replaceSponsorLogos_def resolve_def andThen_def)
qed

lemma Event_save_result:
  "Event_save env ev w = (r, w') \<Longrightarrow>
     (r = Inr ev \<and> events w' = updateFirst (\<lambda>e. event_id e = event_id ev) (\<lambda>_. ev) (events w))
     \<or> ((\<exists>e. r = Inl e) \<and> events w' = events w)"
  by (auto simp: Event_save_def logged_def split: if_splits)

lemma put_event_cases:
  assumes old: "find (\<lambda>e. event_id e = i) (events w) = Some old"
    and run: "put_event env i body files w = (res, w')"
  shows "(statusCode res \<noteq> 200 \<and> events w' = events w)
       \<or> (\<exists>img logos.
            res = Response 200 (EventDoc ((assignFields body old)\<lparr>imageUrl := img, sponsorLogos := logos\<rparr>))
            \<and> events w' = updateFirst (\<lambda>e. event_id e = i)
                  (\<lambda>_. (assignFields body old)\<lparr>imageUrl := img, sponsorLogos := logos\<rparr>) (events w)
            \<and> (case imageUrlFiles files of None \<Rightarrow> img = imageUrl old
                | Some fs \<Rightarrow> \<exists>f rest. fs = f # rest \<and> upload_stream env ''events'' f = Some img)
            \<and> (case sponsorLogosFiles files of None \<Rightarrow> logos = sponsorLogos old
                | Some fs \<Rightarrow> map (upload_stream env ''events/sponsors'') fs = map Some logos))"
proof (cases "isObjectIdHex i \<and> \<not> dbThrows env (EventFindById i)")
  case False
  with run show ?thesis
    by (auto simp: put_event_def io_defs Event_findById_def logged_def split: if_splits)
next
  case True
  define w0 where "w0 = logged (EventFindById i) w"
  define ev0 where "ev0 = assignFields body old"
  have oid: "event_id old = i" using old by (auto simp: find_Some_iff)
  have e0: "events w0 = events w" by (simp add: w0_def logged_def)
  obtain r1 w1 where s1: "replaceImage env files ev0 w0 = (r1, w1)"
    by (cases "replaceImage env files ev0 w0")
  note f1 = replaceImage_result [OF s1]
  show ?thesis
  proof (cases r1)
    case (Inl e)
    with run True old s1 f1 e0 show ?thesis
      by (auto simp: put_event_def io_defs Event_findById_def w0_def ev0_def)
  next
    case (Inr ev1)
    obtain r2 w2 where s2: "replaceSponsorLogos env files ev1 w1 = (r2, w2)"
      by (cases "replaceSponsorLogos env files ev1 w1")
    note f2 = replaceSponsorLogos_result [OF s2]
    show ?thesis
    proof (cases r2)
      case (Inl e)
      with run True old s1 s2 f1 f2 e0 Inr show ?thesis
        by (auto simp: put_event_def io_defs Event_findById_def w0_def ev0_def)
    next
      case ev2: (Inr ev2)
      obtain r3 w3 where s3: "Event_save env ev2 w2 = (r3, w3)"
        by (cases "Event_save env ev2 w2")
      note f3 = Event_save_result [OF s3]
      have res: "(res, w') = (case r3 of Inl e \<Rightarrow> (Response 500 (Message ''Failed to update event''), w3)
                   | Inr u \<Rightarrow> (Response 200 (EventDoc u), w3))"
        using run True old s1 s2 s3 Inr ev2
        by (simp add: put_event_def io_defs Event_findById_def w0_def ev0_def split: sum.splits)
      from f1 Inr obtain img where i1: "ev1 = ev0\<lparr>imageUrl := img\<rparr>"
        and i2: "(case imageUrlFiles files of None \<Rightarrow> img = imageUrl ev0
                 | Some fs \<Rightarrow> \<exists>f rest. fs = f # rest \<and> upload_stream env ''events'' f = Some img)"
        by blast
      from f2 ev2 obtain logos where l1: "ev2 = ev1\<lparr>sponsorLogos := logos\<rparr>"
        and l2: "(case sponsorLogosFiles files of None \<Rightarrow> logos = sponsorLogos ev1
                 | Some fs \<Rightarrow> map (upload_stream env ''events/sponsors'') fs = map Some logos)"
        by blast
      have id2: "event_id ev2 = i" using i1 l1 oid by (simp add: ev0_def assignFields_def)
      have ev2_eq: "ev2 = (assignFields body old)\<lparr>imageUrl := img, sponsorLogos := logos\<rparr>"
        using i1 l1 by (simp add: ev0_def)
      have img: "(case imageUrlFiles files of None \<Rightarrow> img = imageUrl old
                | Some fs \<Rightarrow> \<exists>f rest. fs = f # rest \<and> upload_stream env ''events'' f = Some img)"
        using i2 by (auto simp: ev0_def assignFields_def split: option.splits)
      have logos: "(case sponsorLogosFiles files of None \<Rightarrow> logos = sponsorLogos old
                | Some fs \<Rightarrow> map (upload_stream env ''events/sponsors'') fs = map Some logos)"
        using l2 i1 by (auto simp: ev0_def assignFields_def split: option.splits)
      from f3 show ?thesis
      proof
        assume "r3 = Inr ev2 \<and> events w3 = updateFirst (\<lambda>e. event_id e = event_id ev2) (\<lambda>_. ev2) (events w2)"
        with res id2 f1 f2 e0 have
          "res = Response 200 (EventDoc ev2) \<and> events w' = updateFirst (\<lambda>e. event_id e = i) (\<lambda>_. ev2) (events w)"
          by auto
        with ev2_eq img logos show ?thesis by blast
      next
        assume "(\<exists>e. r3 = Inl e) \<and> events w3 = events w2"
        with res f1 f2 e0 show ?thesis by auto
      qed
    qed
  qed
qed

lemma js_or_absent: "js_or None b = b"
  by (simp add: js_or_def truthy_def)

lemma js_or_empty: "js_or (Some []) b = b"
  by (simp add: js_or_def truthy_def)

lemma js_or_never_empty: "js_or a b = Some [] \<Longrightarrow> b = Some []"
  by (auto simp: js_or_def truthy_def split: if_splits option.splits)

lemma put_event_stored:
  assumes old: "find (\<lambda>e. event_id e = i) (events w) = Some old"
  shows "find (\<lambda>e. event_id e = i) (events (snd (put_event env i body files w))) = Some old
         \<and> statusCode (fst (put_event env i body files w)) \<noteq> 200
       \<or> (\<exists>img logos.
            find (\<lambda>e. event_id e = i) (events (snd (put_event env i body files w)))
              = Some ((assignFields body old)\<lparr>imageUrl := img, sponsorLogos := logos\<rparr>)
            \<and> (case imageUrlFiles files of None \<Rightarrow> img = imageUrl old
                | Some fs \<Rightarrow> \<exists>f rest. fs = f # rest \<and> upload_stream env ''events'' f = Some img)
            \<and> (case sponsorLogosFiles files of None \<Rightarrow> logos = sponsorLogos old
                | Some fs \<Rightarrow> map (upload_stream env ''events/sponsors'') fs = map Some logos))"
proof -
  obtain res w' where run: "put_event env i body files w = (res, w')"
    by (cases "put_event env i body files w")
  have oid: "event_id old = i" using old by (auto simp: find_Some_iff)
  from put_event_cases [OF old run] show ?thesis
  proof
    assume "statusCode res \<noteq> 200 \<and> events w' = events w"
    with run old show ?thesis by simp
  next
    assume "\<exists>img logos.
            res = Response 200 (EventDoc ((assignFields body old)\<lparr>imageUrl := img, sponsorLogos := logos\<rparr>))
            \<and> events w' = updateFirst (\<lambda>e. event_id e = i)
                  (\<lambda>_. (assignFields body old)\<lparr>imageUrl := img, sponsorLogos := logos\<rparr>) (events w)
            \<and> (case imageUrlFiles files of None \<Rightarrow> img = imageUrl old
                | Some fs \<Rightarrow> \<exists>f rest. fs = f # rest \<and> upload_stream env ''events'' f = Some img)
            \<and> (case sponsorLogosFiles files of None \<Rightarrow> logos = sponsorLogos old
                | Some fs \<Rightarrow> map (upload_stream env ''events/sponsors'') fs = map Some logos)"
    then obtain img logos where
      ev: "events w' = updateFirst (\<lambda>e. event_id e = i)
                  (\<lambda>_. (assignFields body old)\<lparr>imageUrl := img, sponsorLogos := logos\<rparr>) (events w)"
      and im: "(case imageUrlFiles files of None \<Rightarrow> img = imageUrl old
                | Some fs \<Rightarrow> \<exists>f rest. fs = f # rest \<and> upload_stream env ''events'' f = Some img)"
      and lo: "(case sponsorLogosFiles files of None \<Rightarrow> logos = sponsorLogos old
                | Some fs \<Rightarrow> map (upload_stream env ''events/sponsors'') fs = map Some logos)"
      by blast
    have "find (\<lambda>e. event_id e = i) (events w')
            = Some ((assignFields body old)\<lparr>imageUrl := img, sponsorLogos := logos\<rparr>)"
      unfolding ev using old oid
      by (intro find_updateFirst) (simp_all add: assignFields_def)
    with run im lo show ?thesis by auto
  qed
qed

lemma Event_insert_result:
  assumes "Event_insert env ev w = (Inr x, w')"
  shows "x = ev \<and> find (\<lambda>e. event_id e = event_id ev) (events w') = Some ev"
proof -
  have n: "find (\<lambda>e. event_id e = event_id ev) (events w) = None"
    and r: "x = ev" and w': "events w' = events w @ [ev]"
    using assms by (auto simp: Event_insert_def logged_def split: if_splits)
  from find_append_new [OF n, of ev] r w' show ?thesis by simp
qed

lemma post_add_created:
  assumes run: "post_add env body files w = (Response 201 (EventDoc saved), w1)"
  shows "find (\<lambda>e. event_id e = event_id saved) (events w1) = Some saved
     \<and> event_id saved = newObjectId env
     \<and> title saved = title body \<and> description saved = description body \<and> date saved = date body
     \<and> location saved = location body \<and> category saved = category body \<and> address saved = address body
     \<and> standardPrice saved = standardPrice body \<and> vipPrice saved = vipPrice body
     \<and> eventTime saved = eventTime body \<and> refreshments saved = refreshments body"
proof -
  define step1 where "step1 = (case imageUrlFiles files of None \<Rightarrow> resolve [] | Some fs \<Rightarrow> uploadFirstImage env fs)"
  define step2 where "step2 = (case sponsorLogosFiles files of None \<Rightarrow> resolve []
                | Some fs \<Rightarrow> uploadSponsorLogos env fs [])"
  define mk where "mk = (\<lambda>image logos.
                 \<lparr>title = title body, description = description body, date = date body,
                  location = location body, category = category body, address = address body,
                  standardPrice = standardPrice body, vipPrice = vipPrice body,
                  eventTime = eventTime body, refreshments = refreshments body,
                  event_id = newObjectId env, imageUrl = image, sponsorLogos = logos\<rparr>)"
  have pa: "post_add env body files w =
     catch500 ''Failed to create event''
       (andThen step1 (\<lambda>image. andThen step2 (\<lambda>logos. andThen (Event_insert env (mk image logos))
         (\<lambda>savedEvent. resolve (Response 201 (EventDoc savedEvent)))))) w"
    by (simp add: post_add_def step1_def step2_def mk_def)
  obtain r1 wa where s1: "step1 w = (r1, wa)" by (cases "step1 w")
  show ?thesis
  proof (cases r1)
    case (Inl e)
    with run pa s1 show ?thesis by (simp add: io_defs)
  next
    case (Inr image)
    obtain r2 wb where s2: "step2 wa = (r2, wb)" by (cases "step2 wa")
    show ?thesis
    proof (cases r2)
      case (Inl e)
      with run pa s1 s2 Inr show ?thesis by (simp add: io_defs)
    next
      case logos: (Inr logos)
      obtain r3 wc where s3: "Event_insert env (mk image logos) wb = (r3, wc)"
        by (cases "Event_insert env (mk image logos) wb")
      show ?thesis
      proof (cases r3)
        case (Inl e)
        with run pa s1 s2 s3 Inr logos show ?thesis by (simp add: io_defs)
      next
        case x: (Inr x)
        with run pa s1 s2 s3 Inr logos have "x = saved" and "wc = w1" by (simp_all add: io_defs)
        with Event_insert_result [of env "mk image logos" wb x wc] s3 x
        have "saved = mk image logos"
          and "find (\<lambda>e. event_id e = event_id (mk image logos)) (events w1) = Some (mk image logos)"
          by simp_all
        then show ?thesis by (simp add: mk_def)
      qed
    qed
  qed
qed

lemma send_v2_found:
  assumes "find (\<lambda>x. booking_id x = i) (bookings w) = Some b"
    and "\<not> dbThrows env (BookingFindByIdPopulate i)"
    and "toBuffer env (verificationURL_v2 env b) = Some qr"
    and "\<not> sendMailThrows env (ticketMail_v2 env body (populate w b) qr)"
  shows "post_send_email_v2 env i body w
         = (Response 200 (EmailSent ''Email sent successfully'' None),
            (logged (BookingFindByIdPopulate i) w)
              \<lparr>outbox := outbox w @ [ticketMail_v2 env body (populate w b) qr]\<rparr>)"
  using assms
  by (simp add: post_send_email_v2_def io_defs Booking_findById_populate_def QRCode_toBuffer_def
        sendMail_def logged_def populate_def)

lemma send_v2_missing:
  assumes "\<forall>x\<in>set (bookings w). booking_id x \<noteq> i"
    and "\<not> dbThrows env (BookingFindByIdPopulate i)"
  shows "post_send_email_v2 env i body w
         = (Response 404 (Message ''Booking not found''), logged (BookingFindByIdPopulate i) w)"
proof -
  have "find (\<lambda>x. booking_id x = i) (bookings w) = None" using assms(1) by (intro find_absent) simp
  with assms(2) show ?thesis
    by (simp add: post_send_email_v2_def io_defs Booking_findById_populate_def)
qed

lemma send_v1_no_markup:
  assumes "\<not> truthy (htmlContent body)"
  shows "post_send_email_v1 env i body w = (Response 400 (Message ''htmlContent is required''), w)"
  using assms
  by (cases "htmlContent body") (simp_all add: post_send_email_v1_def io_defs truthy_def)

lemma send_v1_found:
  assumes "htmlContent body = Some h" and "h \<noteq> []"
    and "find (\<lambda>x. booking_id x = i) (bookings w) = Some b"
    and "\<not> dbThrows env (BookingFindById i)"
    and "toDataURL env (verificationURL_v1 b) = Some qr"
    and "\<not> sendMailThrows env (ticketMail_v1 env body h b qr)"
  shows "post_send_email_v1 env i body w
         = (Response 200 (EmailSent ''Email sent successfully'' (Some qr)),
            (logged (BookingFindById i) w)\<lparr>outbox := outbox w @ [ticketMail_v1 env body h b qr]\<rparr>)"
  using assms
  by (simp add: post_send_email_v1_def io_defs Booking_findById_def QRCode_toDataURL_def
        sendMail_def logged_def)

lemma send_v1_missing:
  assumes "truthy (htmlContent body)"
    and "\<forall>x\<in>set (bookings w). booking_id x \<noteq> i"
    and "\<not> dbThrows env (BookingFindById i)"
  shows "post_send_email_v1 env i body w
         = (Response 404 (Message ''Booking not found''), logged (BookingFindById i) w)"
proof -
  have "find (\<lambda>x. booking_id x = i) (bookings w) = None" using assms(2) by (intro find_absent) simp
  with assms(1,3) show ?thesis
    by (cases "htmlContent body")
       (simp_all add: post_send_email_v1_def io_defs Booking_findById_def truthy_def)
qed

lemma post_booking_create_created:
  assumes "post_booking_create env body file w = (Response st (BookingCreated m b), w')"
  shows "ticketNumber b = generateTicketNumber (random env) \<and> b \<in> set (bookings w')"
proof (cases "file")
  case None
  with assms show ?thesis by (simp add: post_booking_create_def io_defs)
next
  case (Some buf)
  show ?thesis
  proof (cases "truthy (eventId body)")
    case False
    with assms Some show ?thesis by (simp add: post_booking_create_def io_defs)
  next
    case True
    obtain r1 w1 where u: "uploadToCloudinary env buf ''receipts'' w = (r1, w1)"
      by (cases "uploadToCloudinary env buf ''receipts'' w")
    show ?thesis
    proof (cases r1)
      case (Inl e)
      with assms Some True u show ?thesis by (simp add: post_booking_create_def io_defs)
    next
      case (Inr url)
      with assms Some True u show ?thesis
        by (auto simp: post_booking_create_def io_defs Booking_insert_def logged_def
                 split: if_splits)
    qed
  qed
qed

lemma post_booking_create_succeeds:
  assumes "truthy (eventId body)"
    and "upload_stream env ''receipts'' buf = Some url"
    and "\<not> dbThrows env (BookingInsert (newObjectId env))"
    and "\<forall>x\<in>set (bookings w). booking_id x \<noteq> newObjectId env"
  shows "\<exists>b. fst (post_booking_create env body (Some buf) w)
               = Response 201 (BookingCreated ''Booking created successfully'' b)
           \<and> bookings (snd (post_booking_create env body (Some buf) w)) = bookings w @ [b]"
proof -
  have "find (\<lambda>x. booking_id x = newObjectId env) (bookings w) = None"
    using assms(4) by (intro find_absent) simp
  with assms(1-3) show ?thesis
    by (simp add: post_booking_create_def io_defs uploadToCloudinary_def Booking_insert_def logged_def)
qed








section \<open>Rounding to doubles\<close>

lemma rte_le: "t \<le> of_int k \<Longrightarrow> roundTiesToEven t \<le> k"
proof -
  assume a: "t \<le> of_int k"
  have f: "\<lfloor>t\<rfloor> \<le> k" using a by (simp add: floor_le_iff)
  show ?thesis
  proof (cases "\<lfloor>t\<rfloor> = k")
    case True
    then have "t = of_int k" using a by (metis of_int_floor_le order_antisym)
    then show ?thesis by (simp add: roundTiesToEven_def)
  next
    case False
    with f have "\<lfloor>t\<rfloor> + 1 \<le> k" by simp
    then show ?thesis using f by (simp add: roundTiesToEven_def)
  qed
qed

lemma rte_ge: "of_int k \<le> t \<Longrightarrow> k \<le> roundTiesToEven t"
proof -
  assume "of_int k \<le> t"
  then have "k \<le> \<lfloor>t\<rfloor>" by (simp add: le_floor_iff)
  then show ?thesis by (simp add: roundTiesToEven_def)
qed

lemma rte_below_half: "t < of_int k - 1 / 2 \<Longrightarrow> roundTiesToEven t \<le> k - 1"
proof -
  assume a: "t < of_int k - 1 / 2"
  then have "t < of_int k" by simp
  then have f: "\<lfloor>t\<rfloor> \<le> k - 1" by (simp add: floor_less_iff)
  show ?thesis
  proof (cases "\<lfloor>t\<rfloor> = k - 1")
    case True
    then have "t - of_int \<lfloor>t\<rfloor> < 1 / 2" using a by simp
    then show ?thesis using True by (simp add: roundTiesToEven_def)
  next
    case False
    with f have "\<lfloor>t\<rfloor> + 1 \<le> k - 1" by simp
    then show ?thesis using f by (simp add: roundTiesToEven_def)
  qed
qed

lemma ulp_pos: "0 < ulp x"
  by (simp add: ulp_def)

lemma fl_le_grid: "x \<le> ulp x * of_int k \<Longrightarrow> fl x \<le> ulp x * of_int k"
proof -
  assume "x \<le> ulp x * of_int k"
  then have "x / ulp x \<le> of_int k" using ulp_pos [of x] by (simp add: pos_divide_le_eq mult.commute)
  then have "roundTiesToEven (x / ulp x) \<le> k" by (rule rte_le)
  then show ?thesis using ulp_pos [of x] by (simp add: fl_def)
qed

lemma fl_ge_grid: "ulp x * of_int k \<le> x \<Longrightarrow> ulp x * of_int k \<le> fl x"
proof -
  assume "ulp x * of_int k \<le> x"
  then have "of_int k \<le> x / ulp x" using ulp_pos [of x] by (simp add: pos_le_divide_eq mult.commute)
  then have "k \<le> roundTiesToEven (x / ulp x)" by (rule rte_ge)
  then show ?thesis using ulp_pos [of x] by (simp add: fl_def)
qed

lemma exponent_eq:
  assumes "2 powr of_int e \<le> \<bar>x\<bar>" and "\<bar>x\<bar> < 2 powr of_int (e + 1)" and "- 1022 \<le> e"
  shows "exponent x = e"
proof -
  have p: "0 < \<bar>x\<bar>" using assms(1) by (smt (verit) powr_gt_zero)
  have "of_int e \<le> log 2 \<bar>x\<bar>" using assms(1) p by (simp add: le_log_iff)
  moreover have "log 2 \<bar>x\<bar> < of_int (e + 1)" using assms(2) p by (simp add: log_less_iff)
  ultimately have "\<lfloor>log 2 \<bar>x\<bar>\<rfloor> = e" by (simp add: floor_eq_iff)
  then show ?thesis using assms(3) by (simp add: exponent_def)
qed

lemma exponent_less:
  assumes "0 < \<bar>x\<bar>" and "\<bar>x\<bar> < 2 powr of_int n" and "- 1022 < n"
  shows "exponent x < n"
proof -
  have "log 2 \<bar>x\<bar> < of_int n" using assms(1,2) by (simp add: log_less_iff)
  then have "\<lfloor>log 2 \<bar>x\<bar>\<rfloor> < n" by (simp add: floor_less_iff)
  then show ?thesis using assms(3) by (simp add: exponent_def)
qed

lemma grid_refine:
  assumes "j \<le> m"
  shows "(2::real) powr of_int m * of_int c = 2 powr of_int j * of_int (2 ^ nat (m - j) * c)"
proof -
  have "(2::real) powr of_int m = 2 powr (of_int j + of_int (m - j))" by simp
  also have "\<dots> = 2 powr of_int j * 2 powr of_int (m - j)" by (simp only: powr_add)
  also have "(2::real) powr of_int (m - j) = 2 ^ nat (m - j)"
    using assms by (subst powr_real_of_int) simp_all
  finally show ?thesis by simp
qed


lemma ulp_grid:
  assumes "0 < \<bar>x\<bar>" and "\<bar>x\<bar> < 2 powr of_int n" and "- 1022 < n" and "n - 53 \<le> m"
  shows "\<exists>k. 2 powr of_int m * of_int c = ulp x * of_int k"
proof -
  have "exponent x - 52 \<le> m" using exponent_less [OF assms(1-3)] assms(4) by simp
  from grid_refine [OF this, of c] show ?thesis unfolding ulp_def by blast
qed

lemma fl_zero: "fl 0 = 0"
  by (simp add: fl_def roundTiesToEven_def)

lemma fl_nonneg: "0 \<le> x \<Longrightarrow> 0 \<le> fl x"
  using fl_ge_grid [of x 0] by simp

lemma double_below_one:
  assumes d: "isDouble r" and "0 \<le> r" and "r < 1"
  shows "r \<le> 1 - 1 / 9007199254740992"
proof (cases "r < 1 / 2")
  case True
  then show ?thesis by simp
next
  case False
  have e: "exponent r = - 1"
    using False assms by (intro exponent_eq) (simp_all add: powr_minus)
  have u: "ulp r = 1 / 9007199254740992" by (simp add: ulp_def e powr_minus inverse_eq_divide)
  define k where "k = roundTiesToEven (r / ulp r)"
  have r: "r = of_int k / 9007199254740992" using d by (simp add: isDouble_def fl_def k_def u)
  with assms(3) have "real_of_int k < real_of_int 9007199254740992" by simp
  then have "k < 9007199254740992" by (simp only: of_int_less_iff)
  then have "k \<le> 9007199254740991" by simp
  then have "real_of_int k \<le> real_of_int 9007199254740991" by (simp only: of_int_le_iff)
  then show ?thesis unfolding r by simp
qed


lemma fl_product_le:
  assumes "0 \<le> p" and "p \<le> 900000 - 900000 / 9007199254740992"
  shows "fl p \<le> 900000 - 1 / 8589934592"
proof -
  consider "p = 0" | "0 < p" "p < 524288" | "524288 \<le> p" using assms(1) by linarith
  then show ?thesis
  proof cases
    case 1
    then show ?thesis by (simp add: fl_zero)
  next
    case 2
    have "\<exists>k. 2 powr of_int 0 * of_int 524288 = ulp p * of_int k"
      using 2 by (intro ulp_grid [where n = 19]) simp_all
    then obtain k where k: "524288 = ulp p * of_int k" by auto
    have "p \<le> ulp p * of_int k" using 2 k by simp
    from fl_le_grid [OF this] k show ?thesis by simp
  next
    case 3
    have e: "exponent p = 19"
      using 3 assms(2) by (intro exponent_eq) simp_all
    have u: "ulp p = 1 / 8589934592" by (simp add: ulp_def e powr_minus inverse_eq_divide)
    have "p / ulp p < of_int 7730941132800000 - 1 / 2"
      using assms(2) by (simp add: u)
    then have "roundTiesToEven (p / ulp p) \<le> 7730941132800000 - 1" by (rule rte_below_half)
    then have "real_of_int (roundTiesToEven (p / ulp p)) \<le> real_of_int 7730941132799999"
      by (simp only: of_int_le_iff)
    then show ?thesis by (simp add: fl_def u)
  qed
qed

lemma fl_sum_bounds:
  assumes "0 \<le> q" and "q \<le> 900000 - 1 / 8589934592"
  shows "100000 \<le> fl (100000 + q) \<and> fl (100000 + q) \<le> 1000000 - 1 / 8589934592"
proof -
  let ?s = "100000 + q"
  have pos: "0 < \<bar>?s\<bar>" and lt: "\<bar>?s\<bar> < 2 powr of_int 20" using assms by simp_all
  have "\<exists>k. 2 powr of_int 0 * of_int 100000 = ulp ?s * of_int k"
    using pos lt by (intro ulp_grid [where n = 20]) simp_all
  then obtain k where k: "100000 = ulp ?s * of_int k" by auto
  have "ulp ?s * of_int k \<le> ?s" using assms(1) k by simp
  from fl_ge_grid [OF this] k have lo: "100000 \<le> fl ?s" by simp
  have "\<exists>k. 2 powr of_int (- 33) * of_int 8589934591999999 = ulp ?s * of_int k"
    using pos lt by (intro ulp_grid [where n = 20]) simp_all
  then obtain j where j: "1000000 - 1 / 8589934592 = ulp ?s * of_int j"
    by (auto simp: powr_minus inverse_eq_divide)
  have "?s \<le> ulp ?s * of_int j" using assms(2) j by simp
  from fl_le_grid [OF this] j have "fl ?s \<le> 1000000 - 1 / 8589934592" by simp
  with lo show ?thesis by blast
qed

lemma generateTicketNumber_range:
  assumes "isDouble r" and "0 \<le> r" and "r < 1"
  shows "100000 \<le> generateTicketNumber r \<and> generateTicketNumber r \<le> 999999"
proof -
  have "r \<le> 1 - 1 / 9007199254740992" using assms by (rule double_below_one)
  then have p: "r * 900000 \<le> 900000 - 900000 / 9007199254740992" by simp
  have p0: "0 \<le> r * 900000" using assms(2) by simp
  note q = fl_nonneg [OF p0] fl_product_le [OF p0 p]
  note s = fl_sum_bounds [OF q]
  from s have "100000 \<le> generateTicketNumber r"
    by (simp add: generateTicketNumber_def le_floor_iff)
  moreover from s have "fl (100000 + fl (r * 900000)) < 1000000" by simp
  then have "generateTicketNumber r < 1000000"
    by (simp add: generateTicketNumber_def floor_less_iff)
  ultimately show ?thesis by simp
qed


lemma ticket_at_tie:
  "generateTicketNumber (9007199254740991 / 18014398509481984) = 550000"
proof -
  define p :: real where "p = 9007199254740991 / 18014398509481984 * 900000"
  have e1: "exponent p = 18" by (intro exponent_eq) (simp_all add: p_def)
  have u1: "ulp p = 1 / 17179869184" by (simp add: ulp_def e1 powr_minus inverse_eq_divide)
  have t1: "p / ulp p = 253327479039590371875 / 32768" unfolding u1 by (simp add: p_def)
  have f1: "\<lfloor>253327479039590371875 / 32768 :: real\<rfloor> = 7730941132799999" by simp
  have r1: "roundTiesToEven (p / ulp p) = 7730941132799999"
    unfolding t1 roundTiesToEven_def f1 by simp
  define s :: real where "s = 100000 + fl p"
  have sv: "s = 9448928051199999 / 17179869184" by (simp only: s_def fl_def r1) (simp add: u1)
  have e2: "exponent s = 19" by (intro exponent_eq) (simp_all add: sv)
  have u2: "ulp s = 1 / 8589934592" by (simp add: ulp_def e2 powr_minus inverse_eq_divide)
  have t2: "s / ulp s = 9448928051199999 / 2" unfolding u2 by (simp add: sv)
  have f2: "\<lfloor>9448928051199999 / 2 :: real\<rfloor> = 4724464025599999" by simp
  have r2: "roundTiesToEven (s / ulp s) = 4724464025600000"
    unfolding t2 roundTiesToEven_def f2 by simp
  have fls: "fl s = 550000" by (simp only: fl_def r2) (simp add: u2)
  show ?thesis
    by (simp only: generateTicketNumber_def p_def [symmetric] s_def [symmetric] fls) simp
qed

lemma isDouble_tie: "isDouble (9007199254740991 / 18014398509481984)"
proof -
  define r :: real where "r = 9007199254740991 / 18014398509481984"
  have e: "exponent r = - 2" by (intro exponent_eq) (simp_all add: powr_minus r_def)
  have u: "ulp r = 1 / 18014398509481984" by (simp add: ulp_def e powr_minus inverse_eq_divide)
  have t: "r / ulp r = of_int 9007199254740991" unfolding u by (simp add: r_def)
  have rt: "roundTiesToEven (r / ulp r) = 9007199254740991"
    unfolding t roundTiesToEven_def by (simp only: floor_of_int) simp
  have "fl r = r" by (simp only: fl_def rt) (simp only: u, simp add: r_def)
  then show ?thesis by (simp add: isDouble_def r_def)
qed

section \<open>The handlers on the sample\<close>

lemma hex_a: "isObjectIdHex ''aaaaaaaaaaaaaaaaaaaaaaaa''"
  by (simp add: isObjectIdHex_def isHexDigit_def)

lemma hex_c: "isObjectIdHex ''cccccccccccccccccccccccc''"
  by (simp add: isObjectIdHex_def isHexDigit_def)

lemma sample_find:
  "Event_findById sampleEnv ''aaaaaaaaaaaaaaaaaaaaaaaa'' sampleWorld
     = (Inr (Some sampleEvent), logged (EventFindById ''aaaaaaaaaaaaaaaaaaaaaaaa'') sampleWorld)"
  by (simp add: Event_findById_def sampleEnv_def sampleWorld_def sampleEvent_def)

lemma sample_replaceImage:
  "replaceImage sampleEnv sampleFiles ev w
     = (Inr (ev\<lparr>imageUrl := ''https://media.example/events/img2''\<rparr>),
        w\<lparr>uploadLog := uploadLog w @ [(''events'', ''img2'')]\<rparr>)"
  by (simp add: replaceImage_def sampleFiles_def uploadFirstImage_def uploadToCloudinary_def
        sampleEnv_def io_defs)

lemma sample_replaceSponsorLogos: "replaceSponsorLogos sampleEnv sampleFiles ev w = (Inr ev, w)"
  by (simp add: replaceSponsorLogos_def sampleFiles_def io_defs)

lemma sample_save:
  "Event_save sampleEnv ev w
     = (Inr ev, logged (EventSave (event_id ev))
              (w\<lparr>events := updateFirst (\<lambda>e. event_id e = event_id ev) (\<lambda>_. ev) (events w)\<rparr>))"
  by (simp add: Event_save_def sampleEnv_def)

lemma sample_put:
  "put_event sampleEnv ''aaaaaaaaaaaaaaaaaaaaaaaa'' body sampleFiles sampleWorld
     = (Response 200 (EventDoc ((assignFields body sampleEvent)
                                  \<lparr>imageUrl := ''https://media.example/events/img2''\<rparr>)),
        \<lparr>events = [(assignFields body sampleEvent)\<lparr>imageUrl := ''https://media.example/events/img2''\<rparr>],
         bookings = [sampleBooking],
         dbLog = [EventFindById ''aaaaaaaaaaaaaaaaaaaaaaaa'', EventSave ''aaaaaaaaaaaaaaaaaaaaaaaa''],
         uploadLog = [(''events'', ''img2'')], outbox = []\<rparr>)"
proof -
  have i: "event_id (assignFields body sampleEvent) = ''aaaaaaaaaaaaaaaaaaaaaaaa''"
    by (simp add: assignFields_def sampleEvent_def)
  have e: "event_id sampleEvent = ''aaaaaaaaaaaaaaaaaaaaaaaa''" by (simp add: sampleEvent_def)
  show ?thesis
    by (simp add: put_event_def hex_a andThen_def catch500_def resolve_def sample_find
        sample_replaceImage sample_replaceSponsorLogos sample_save i logged_def)
       (simp add: sampleWorld_def e)
qed

lemma sample_new_event:
  "\<lparr>title = title sampleCreate, description = description sampleCreate, date = date sampleCreate,
    location = location sampleCreate, category = category sampleCreate, address = address sampleCreate,
    standardPrice = standardPrice sampleCreate, vipPrice = vipPrice sampleCreate,
    eventTime = eventTime sampleCreate, refreshments = refreshments sampleCreate,
    event_id = newObjectId sampleEnv, imageUrl = ''https://media.example/events/img2'',
    sponsorLogos = []\<rparr> = sampleCreated"
  by (simp add: sampleCreate_def sampleCreated_def sampleEnv_def)

lemma sample_upload_image:
  "uploadFirstImage sampleEnv [''img2''] w
     = (Inr ''https://media.example/events/img2'', w\<lparr>uploadLog := uploadLog w @ [(''events'', ''img2'')]\<rparr>)"
  by (simp add: uploadFirstImage_def uploadToCloudinary_def sampleEnv_def)

lemma sample_insert:
  "events w = [sampleEvent] \<Longrightarrow>
   Event_insert sampleEnv sampleCreated w
     = (Inr sampleCreated,
        logged (EventInsert ''cccccccccccccccccccccccc'') (w\<lparr>events := [sampleEvent, sampleCreated]\<rparr>))"
  by (simp add: Event_insert_def sampleEnv_def sampleCreated_def sampleEvent_def)

lemma sample_add:
  "post_add sampleEnv sampleCreate sampleFiles sampleWorld
     = (Response 201 (EventDoc sampleCreated),
        \<lparr>events = [sampleEvent, sampleCreated], bookings = [sampleBooking],
         dbLog = [EventInsert ''cccccccccccccccccccccccc''],
         uploadLog = [(''events'', ''img2'')], outbox = []\<rparr>)"
proof -
  have f: "imageUrlFiles sampleFiles = Some [''img2'']" "sponsorLogosFiles sampleFiles = None"
    by (simp_all add: sampleFiles_def)
  have e: "events (sampleWorld\<lparr>uploadLog := uploadLog sampleWorld @ [(''events'', ''img2'')]\<rparr>) = [sampleEvent]"
    by (simp add: sampleWorld_def)
  show ?thesis
    by (simp add: post_add_def f andThen_def catch500_def resolve_def sample_upload_image
          sample_new_event sample_insert [OF e] logged_def)
       (simp add: sampleWorld_def)
qed

lemma sample_ticket_text: "showInt (ticketNumber sampleBooking) = ''550000''"
  by (simp add: sampleBooking_def showInt_def showNat_small showNat_large digitChar_def)

lemma sample_replace:
  "js_replace ''<img src={{QR_CODE}}>'' ''{{QR_CODE}}''
       ''data:image/png;base64,https://your-domain.com/verify-ticket/550000''
     = ''<img src=data:image/png;base64,https://your-domain.com/verify-ticket/550000>''"
  by (simp add: js_replace_def)

lemma sample_booking_create:
  "post_booking_create sampleEnv sampleBookingRequest (Some ''receipt'') sampleWorld
     = (Response 201 (BookingCreated ''Booking created successfully'' sampleNewBooking),
        \<lparr>events = [sampleEvent], bookings = [sampleBooking, sampleNewBooking],
         dbLog = [BookingInsert ''cccccccccccccccccccccccc''],
         uploadLog = [(''receipts'', ''receipt'')], outbox = []\<rparr>)"
proof -
  have t: "generateTicketNumber (random sampleEnv) = 550000"
    by (simp add: sampleEnv_def ticket_at_tie)
  have n: "\<lparr>firstName = firstName sampleBookingRequest, lastName = lastName sampleBookingRequest,
                       contactNumber = contactNumber sampleBookingRequest, emailAddress = emailAddress sampleBookingRequest,
                       cityName = cityName sampleBookingRequest, ticketType = ticketType sampleBookingRequest,
                       eventId = eventId sampleBookingRequest, booking_id = newObjectId sampleEnv,
                       ticketNumber = 550000,
                       receiptImage = ''https://media.example/receipts/receipt'', status = ''Pending''\<rparr>
           = sampleNewBooking"
    by (simp add: sampleBookingRequest_def sampleNewBooking_def sampleEnv_def)
  have tr: "truthy (eventId sampleBookingRequest)" by (simp add: sampleBookingRequest_def truthy_def)
  have up: "\<And>w. uploadToCloudinary sampleEnv ''receipt'' ''receipts'' w
     = (Inr ''https://media.example/receipts/receipt'', w\<lparr>uploadLog := uploadLog w @ [(''receipts'', ''receipt'')]\<rparr>)"
    by (simp add: uploadToCloudinary_def sampleEnv_def)
  have ins: "\<And>w. bookings w = [sampleBooking] \<Longrightarrow> Booking_insert sampleEnv sampleNewBooking w
     = (Inr sampleNewBooking, logged (BookingInsert ''cccccccccccccccccccccccc'')
          (w\<lparr>bookings := [sampleBooking, sampleNewBooking]\<rparr>))"
    by (simp add: Booking_insert_def sampleEnv_def sampleNewBooking_def sampleBooking_def)
  have b: "bookings (sampleWorld\<lparr>uploadLog := uploadLog sampleWorld @ [(''receipts'', ''receipt'')]\<rparr>) = [sampleBooking]"
    by (simp add: sampleWorld_def)
  show ?thesis
    by (simp add: post_booking_create_def tr andThen_def catch500error_def resolve_def up t n
          ins [OF b] logged_def)
       (simp add: sampleWorld_def)
qed




section \<open>Ticket numbers\<close>

text \<open>
  C2.  For every double \<open>r\<close> with \<open>0 \<le> r < 1\<close> drawn by \<^verbatim>\<open>Math.random()\<close>, the ticket number
  computed in double arithmetic as \<^verbatim>\<open>Math.floor(100000 + r * 900000)\<close> lies in the closed
  range from 100000 to 999999 and its decimal rendering has exactly six digits.  Whenever
  the creation handler answers with a created booking, that booking is stored and its
  ticket number lies in the range; and the handler does answer 201 with such a booking
  when the receipt and the event identifier are there, the upload succeeds and the insert
  is carried out under a new identifier.
\<close>

theorem ticketNumber_six_digits:
  assumes "isDouble (random env)" and "0 \<le> random env" and "random env < 1"
  shows "100000 \<le> generateTicketNumber (random env)
     \<and> generateTicketNumber (random env) \<le> 999999
     \<and> length (showInt (generateTicketNumber (random env))) = 6
     \<and> (\<forall>st m b w'. post_booking_create env body file w = (Response st (BookingCreated m b), w') \<longrightarrow>
           b \<in> set (bookings w') \<and> 100000 \<le> ticketNumber b \<and> ticketNumber b \<le> 999999
           \<and> length (showInt (ticketNumber b)) = 6)
     \<and> (\<forall>buf url. file = Some buf \<and> truthy (eventId body)
             \<and> upload_stream env ''receipts'' buf = Some url
             \<and> \<not> dbThrows env (BookingInsert (newObjectId env))
             \<and> (\<forall>x\<in>set (bookings w). booking_id x \<noteq> newObjectId env) \<longrightarrow>
           (\<exists>b. fst (post_booking_create env body file w)
                   = Response 201 (BookingCreated ''Booking created successfully'' b)
              \<and> bookings (snd (post_booking_create env body file w)) = bookings w @ [b]
              \<and> 100000 \<le> ticketNumber b \<and> ticketNumber b \<le> 999999))"
proof -
  note rng = generateTicketNumber_range [OF assms]
  have "length (showNat (nat (generateTicketNumber (random env)))) = 6"
    using rng by (intro showNat_length_6) auto
  then have len: "length (showInt (generateTicketNumber (random env))) = 6"
    using rng by (simp add: showInt_def)
  have stored: "\<And>st m b w'. post_booking_create env body file w = (Response st (BookingCreated m b), w') \<Longrightarrow>
           b \<in> set (bookings w') \<and> 100000 \<le> ticketNumber b \<and> ticketNumber b \<le> 999999
           \<and> length (showInt (ticketNumber b)) = 6"
    using post_booking_create_created rng len by metis
  have created: "\<And>buf url. file = Some buf \<Longrightarrow> truthy (eventId body)
             \<Longrightarrow> upload_stream env ''receipts'' buf = Some url
             \<Longrightarrow> \<not> dbThrows env (BookingInsert (newObjectId env))
             \<Longrightarrow> \<forall>x\<in>set (bookings w). booking_id x \<noteq> newObjectId env \<Longrightarrow>
           (\<exists>b. fst (post_booking_create env body file w)
                   = Response 201 (BookingCreated ''Booking created successfully'' b)
              \<and> bookings (snd (post_booking_create env body file w)) = bookings w @ [b]
              \<and> 100000 \<le> ticketNumber b \<and> ticketNumber b \<le> 999999)"
  proof -
    fix buf url
    assume h: "file = Some buf" "truthy (eventId body)" "upload_stream env ''receipts'' buf = Some url"
      "\<not> dbThrows env (BookingInsert (newObjectId env))"
      "\<forall>x\<in>set (bookings w). booking_id x \<noteq> newObjectId env"
    from post_booking_create_succeeds [OF h(2-5)] obtain b where
      b: "fst (post_booking_create env body (Some buf) w)
               = Response 201 (BookingCreated ''Booking created successfully'' b)"
         "bookings (snd (post_booking_create env body (Some buf) w)) = bookings w @ [b]"
      by blast
    have "post_booking_create env body file w
            = (Response 201 (BookingCreated ''Booking created successfully'' b),
               snd (post_booking_create env body file w))"
      using b(1) h(1) by (simp add: prod_eq_iff)
    from stored [OF this] b h(1) show "\<exists>b. fst (post_booking_create env body file w)
                   = Response 201 (BookingCreated ''Booking created successfully'' b)
              \<and> bookings (snd (post_booking_create env body file w)) = bookings w @ [b]
              \<and> 100000 \<le> ticketNumber b \<and> ticketNumber b \<le> 999999"
      by blast
  qed
  from rng len stored created show ?thesis by blast
qed

theorem ticketNumber_six_digits_witness:
  "isDouble (random sampleEnv) \<and> 0 \<le> random sampleEnv \<and> random sampleEnv < 1
   \<and> generateTicketNumber (random sampleEnv) = 550000
   \<and> showInt (generateTicketNumber (random sampleEnv)) = ''550000''
   \<and> post_booking_create sampleEnv sampleBookingRequest (Some ''receipt'') sampleWorld
     = (Response 201 (BookingCreated ''Booking created successfully'' sampleNewBooking),
        \<lparr>events = [sampleEvent], bookings = [sampleBooking, sampleNewBooking],
         dbLog = [BookingInsert ''cccccccccccccccccccccccc''],
         uploadLog = [(''receipts'', ''receipt'')], outbox = []\<rparr>)
   \<and> ticketNumber sampleNewBooking = 550000
   \<and> length (showInt (ticketNumber sampleNewBooking)) = 6"
proof -
  have d: "isDouble (random sampleEnv)" by (simp add: sampleEnv_def isDouble_tie)
  have r: "0 \<le> random sampleEnv" "random sampleEnv < 1" by (simp_all add: sampleEnv_def)
  have t: "generateTicketNumber (random sampleEnv) = 550000"
    by (simp add: sampleEnv_def ticket_at_tie)
  have s: "showInt 550000 = ''550000''"
    by (simp add: showInt_def showNat_small showNat_large digitChar_def)
  have n: "ticketNumber sampleNewBooking = 550000" by (simp add: sampleNewBooking_def)
  have "length (showInt (ticketNumber sampleNewBooking)) = 6"
    using ticketNumber_six_digits [OF d r, of sampleBookingRequest "Some ''receipt''" sampleWorld]
      sample_booking_create by blast
  with d r t s n sample_booking_create show ?thesis by simp
qed

section \<open>Ticket verification\<close>

text \<open>
  C1.  When the lookup is carried out (the call does not reject and the ticket number of
  the path is cast to the number \<open>n\<close>): if no booking has ticket number \<open>n\<close>, the answer has
  status 404 and \<^verbatim>\<open>valid: false\<close>; if some booking has it, the answer has \<^verbatim>\<open>valid: true\<close>
  and carries the first such booking of the collection together with the event it refers
  to.  In both cases the store is only read.
\<close>

theorem verify_ticket:
  assumes "\<not> dbThrows env (BookingFindOnePopulate t)" and "castNumber env t = Some n"
  shows "((\<forall>b\<in>set (bookings w). ticketNumber b \<noteq> n) \<longrightarrow>
           get_verify env t w
             = (Response 404 (Verify False ''Invalid ticket. No matching record found.'' None),
                logged (BookingFindOnePopulate t) w))
       \<and> (\<forall>pre b post. bookings w = pre @ b # post \<and> (\<forall>x\<in>set pre. ticketNumber x \<noteq> n) \<and> ticketNumber b = n \<longrightarrow>
           get_verify env t w
             = (Response 200 (Verify True ''Ticket is valid''
                   (Some (b, find (\<lambda>e. Some (event_id e) = eventId b) (events w)))),
                logged (BookingFindOnePopulate t) w))"
  using assms
  by (auto simp: get_verify_def io_defs Booking_findOne_populate_def find_absent find_first_match populate_def)

theorem verify_ticket_witness:
  "get_verify sampleEnv ''123456'' sampleWorld
     = (Response 404 (Verify False ''Invalid ticket. No matching record found.'' None),
        logged (BookingFindOnePopulate ''123456'') sampleWorld)
   \<and> get_verify sampleEnv ''550000'' sampleWorld
     = (Response 200 (Verify True ''Ticket is valid'' (Some (sampleBooking, Some sampleEvent))),
        logged (BookingFindOnePopulate ''550000'') sampleWorld)"
proof -
  have t1: "\<not> dbThrows sampleEnv (BookingFindOnePopulate ''123456'')" by (simp add: sampleEnv_def)
  have c1: "castNumber sampleEnv ''123456'' = Some 123456" by (simp add: sampleEnv_def)
  have n1: "\<forall>b\<in>set (bookings sampleWorld). ticketNumber b \<noteq> 123456"
    by (simp add: sampleWorld_def sampleBooking_def)
  have t2: "\<not> dbThrows sampleEnv (BookingFindOnePopulate ''550000'')" by (simp add: sampleEnv_def)
  have c2: "castNumber sampleEnv ''550000'' = Some 550000" by (simp add: sampleEnv_def)
  have m2: "bookings sampleWorld = [] @ sampleBooking # [] \<and> (\<forall>x\<in>set []. ticketNumber x \<noteq> 550000)
             \<and> ticketNumber sampleBooking = 550000"
    by (simp add: sampleWorld_def sampleBooking_def)
  have ev: "find (\<lambda>e. Some (event_id e) = eventId sampleBooking) (events sampleWorld) = Some sampleEvent"
    by (simp add: sampleWorld_def sampleBooking_def sampleEvent_def)
  from verify_ticket [OF t1 c1, of sampleWorld] n1 have A:
    "get_verify sampleEnv ''123456'' sampleWorld
     = (Response 404 (Verify False ''Invalid ticket. No matching record found.'' None),
        logged (BookingFindOnePopulate ''123456'') sampleWorld)" by blast
  from verify_ticket [OF t2 c2, of sampleWorld] m2 have
    "get_verify sampleEnv ''550000'' sampleWorld
     = (Response 200 (Verify True ''Ticket is valid''
          (Some (sampleBooking, find (\<lambda>e. Some (event_id e) = eventId sampleBooking) (events sampleWorld)))),
        logged (BookingFindOnePopulate ''550000'') sampleWorld)" by blast
  with A ev show ?thesis by simp
qed

section \<open>Status update\<close>

text \<open>
  C3.  A status outside \<^verbatim>\<open>Pending\<close>, \<^verbatim>\<open>Paid\<close>, \<^verbatim>\<open>Unpaid\<close>, \<^verbatim>\<open>Cancelled\<close> is answered
  with status 400 and the world is left as it was: no booking is read or changed.  With a
  status of the enumeration and a booking stored under the identifier, the answer is the
  booking with the new status, and that is what the store then holds under the
  identifier (provided the call to the store does not reject).
\<close>

theorem update_status_validation:
  "(st \<notin> Some ` {''Pending'', ''Paid'', ''Unpaid'', ''Cancelled''} \<longrightarrow>
      put_update_status env i st w = (Response 400 (Message ''Invalid status value''), w))
   \<and> (\<forall>s b. st = Some s \<and> s \<in> {''Pending'', ''Paid'', ''Unpaid'', ''Cancelled''}
          \<and> \<not> dbThrows env (BookingFindByIdAndUpdate i)
          \<and> find (\<lambda>x. booking_id x = i) (bookings w) = Some b \<longrightarrow>
        fst (put_update_status env i st w)
          = Response 200 (StatusUpdated ''Status updated successfully'' (b\<lparr>status := s\<rparr>))
        \<and> find (\<lambda>x. booking_id x = i) (bookings (snd (put_update_status env i st w)))
          = Some (b\<lparr>status := s\<rparr>))"
proof -
  have inc: "\<And>s. js_includes validStatuses (Some s) = (s \<in> {''Pending'', ''Paid'', ''Unpaid'', ''Cancelled''})"
    by (auto simp: js_includes_def validStatuses_def)
  have a: "st \<notin> Some ` {''Pending'', ''Paid'', ''Unpaid'', ''Cancelled''} \<Longrightarrow>
      put_update_status env i st w = (Response 400 (Message ''Invalid status value''), w)"
    by (cases st) (auto simp: put_update_status_def io_defs inc)
  have b: "\<And>s b. st = Some s \<Longrightarrow> s \<in> {''Pending'', ''Paid'', ''Unpaid'', ''Cancelled''}
          \<Longrightarrow> \<not> dbThrows env (BookingFindByIdAndUpdate i)
          \<Longrightarrow> find (\<lambda>x. booking_id x = i) (bookings w) = Some b \<Longrightarrow>
        fst (put_update_status env i st w)
          = Response 200 (StatusUpdated ''Status updated successfully'' (b\<lparr>status := s\<rparr>))
        \<and> find (\<lambda>x. booking_id x = i) (bookings (snd (put_update_status env i st w)))
          = Some (b\<lparr>status := s\<rparr>)"
  proof -
    fix s b
    assume h: "st = Some s" "s \<in> {''Pending'', ''Paid'', ''Unpaid'', ''Cancelled''}"
       "\<not> dbThrows env (BookingFindByIdAndUpdate i)" "find (\<lambda>x. booking_id x = i) (bookings w) = Some b"
    have bi: "booking_id b = i" using h(4) by (auto simp: find_Some_iff)
    have u: "find (\<lambda>x. booking_id x = i) (updateFirst (\<lambda>x. booking_id x = i) (\<lambda>x. x\<lparr>status := s\<rparr>) (bookings w))
        = Some (b\<lparr>status := s\<rparr>)"
      using h(4) bi by (intro find_updateFirst) simp_all
    show "fst (put_update_status env i st w)
          = Response 200 (StatusUpdated ''Status updated successfully'' (b\<lparr>status := s\<rparr>))
        \<and> find (\<lambda>x. booking_id x = i) (bookings (snd (put_update_status env i st w)))
          = Some (b\<lparr>status := s\<rparr>)"
      using h u by (simp add: put_update_status_def io_defs inc Booking_findByIdAndUpdate_def logged_def)
  qed
  show ?thesis using a b by blast
qed

theorem update_status_validation_witness:
  "put_update_status sampleEnv ''bbbbbbbbbbbbbbbbbbbbbbbb'' (Some ''Archived'') sampleWorld
     = (Response 400 (Message ''Invalid status value''), sampleWorld)
   \<and> fst (put_update_status sampleEnv ''bbbbbbbbbbbbbbbbbbbbbbbb'' (Some ''Paid'') sampleWorld)
     = Response 200 (StatusUpdated ''Status updated successfully'' (sampleBooking\<lparr>status := ''Paid''\<rparr>))
   \<and> find (\<lambda>x. booking_id x = ''bbbbbbbbbbbbbbbbbbbbbbbb'')
        (bookings (snd (put_update_status sampleEnv ''bbbbbbbbbbbbbbbbbbbbbbbb'' (Some ''Paid'') sampleWorld)))
     = Some (sampleBooking\<lparr>status := ''Paid''\<rparr>)"
proof -
  have a: "Some ''Archived'' \<notin> Some ` {''Pending'', ''Paid'', ''Unpaid'', ''Cancelled''}" by simp
  have b: "''Paid'' \<in> {''Pending'', ''Paid'', ''Unpaid'', ''Cancelled''}" by simp
  have c: "\<not> dbThrows sampleEnv (BookingFindByIdAndUpdate ''bbbbbbbbbbbbbbbbbbbbbbbb'')"
    by (simp add: sampleEnv_def)
  have d: "find (\<lambda>x. booking_id x = ''bbbbbbbbbbbbbbbbbbbbbbbb'') (bookings sampleWorld) = Some sampleBooking"
    by (simp add: sampleWorld_def sampleBooking_def)
  show ?thesis
    using a b c d
      update_status_validation [of "Some ''Archived''" sampleEnv "''bbbbbbbbbbbbbbbbbbbbbbbb''" sampleWorld]
      update_status_validation [of "Some ''Paid''" sampleEnv "''bbbbbbbbbbbbbbbbbbbbbbbb''" sampleWorld]
    by blast
qed

section \<open>Booking creation\<close>

text \<open>
  C4.  A creation request without the receipt image, or with the image but without an
  event identifier, is answered with status 400 and leaves the world as it was: nothing
  is uploaded and no booking is stored.
\<close>

theorem booking_create_requires_receipt_and_event:
  "(file = None \<longrightarrow>
      post_booking_create env body file w = (Response 400 (Message ''Receipt image is required''), w))
   \<and> (file \<noteq> None \<and> \<not> truthy (eventId body) \<longrightarrow>
      post_booking_create env body file w = (Response 400 (Message ''eventId is required''), w))"
  by (auto simp: post_booking_create_def io_defs)

theorem booking_create_requires_receipt_and_event_witness:
  "post_booking_create sampleEnv (bookingFields.truncate sampleBooking) None sampleWorld
     = (Response 400 (Message ''Receipt image is required''), sampleWorld)
   \<and> \<not> truthy (eventId ((bookingFields.truncate sampleBooking)\<lparr>eventId := Some []\<rparr>))
   \<and> post_booking_create sampleEnv ((bookingFields.truncate sampleBooking)\<lparr>eventId := Some []\<rparr>)
        (Some ''receipt'') sampleWorld
     = (Response 400 (Message ''eventId is required''), sampleWorld)"
  using booking_create_requires_receipt_and_event
          [of None sampleEnv "bookingFields.truncate sampleBooking" sampleWorld]
        booking_create_requires_receipt_and_event
          [of "Some ''receipt''" sampleEnv "(bookingFields.truncate sampleBooking)\<lparr>eventId := Some []\<rparr>" sampleWorld]
  by (simp add: truthy_def)

section \<open>Event identifiers\<close>

text \<open>
  C6.  Reading an event under an identifier that is not made of 24 hexadecimal characters
  is answered with status 400 and leaves the world as it was, the log of database calls
  included.  Under a well-formed identifier that no stored event has, the answer is
  status 404 (provided the lookup does not reject).
\<close>

theorem get_event_id_check:
  "(\<not> isObjectIdHex i \<longrightarrow> get_event env i w = (Response 400 (Message ''Invalid event ID''), w))
   \<and> (isObjectIdHex i \<and> \<not> dbThrows env (EventFindById i) \<and> (\<forall>e\<in>set (events w). event_id e \<noteq> i) \<longrightarrow>
        get_event env i w = (Response 404 (Message ''Event not found''), logged (EventFindById i) w))"
  by (auto simp: get_event_def io_defs Event_findById_def find_absent)

theorem get_event_id_check_witness:
  "\<not> isObjectIdHex ''123''
   \<and> get_event sampleEnv ''123'' sampleWorld = (Response 400 (Message ''Invalid event ID''), sampleWorld)
   \<and> isObjectIdHex ''0123456789abcdefABCDEF00''
   \<and> get_event sampleEnv ''0123456789abcdefABCDEF00'' sampleWorld
       = (Response 404 (Message ''Event not found''),
          logged (EventFindById ''0123456789abcdefABCDEF00'') sampleWorld)"
proof -
  have a: "\<not> isObjectIdHex ''123''" by (simp add: isObjectIdHex_def)
  have b: "isObjectIdHex ''0123456789abcdefABCDEF00''"
    by (simp add: isObjectIdHex_def isHexDigit_def)
  have c: "\<not> dbThrows sampleEnv (EventFindById ''0123456789abcdefABCDEF00'')"
    by (simp add: sampleEnv_def)
  have d: "\<forall>e\<in>set (events sampleWorld). event_id e \<noteq> ''0123456789abcdefABCDEF00''"
    by (simp add: sampleWorld_def sampleEvent_def)
  show ?thesis
    using a b c d get_event_id_check [of "''123''" sampleEnv sampleWorld]
      get_event_id_check [of "''0123456789abcdefABCDEF00''" sampleEnv sampleWorld]
    by blast
qed

text \<open>
  C10.  Updating or deleting an event under an identifier that is not made of 24
  hexadecimal characters is answered with status 400 and leaves the world as it was: no
  database call is made and every event is unchanged.
\<close>

theorem put_delete_event_id_check:
  "\<not> isObjectIdHex i \<Longrightarrow>
     put_event env i body files w = (Response 400 (Message ''Invalid event ID''), w)
     \<and> delete_event env i w = (Response 400 (Message ''Invalid event ID''), w)"
  by (simp add: put_event_def delete_event_def io_defs)

theorem put_delete_event_id_check_witness:
  "\<not> isObjectIdHex ''aaaaaaaaaaaaaaaaaaaaaaa!''
   \<and> put_event sampleEnv ''aaaaaaaaaaaaaaaaaaaaaaa!'' (eventFields.truncate sampleEvent)
        \<lparr>imageUrlFiles = Some [''img''], sponsorLogosFiles = None\<rparr> sampleWorld
       = (Response 400 (Message ''Invalid event ID''), sampleWorld)
   \<and> delete_event sampleEnv ''aaaaaaaaaaaaaaaaaaaaaaa!'' sampleWorld
       = (Response 400 (Message ''Invalid event ID''), sampleWorld)"
proof -
  have a: "\<not> isObjectIdHex ''aaaaaaaaaaaaaaaaaaaaaaa!''"
    by (simp add: isObjectIdHex_def isHexDigit_def)
  show ?thesis
    using a put_delete_event_id_check [OF a, of sampleEnv "eventFields.truncate sampleEvent"
        "\<lparr>imageUrlFiles = Some [''img''], sponsorLogosFiles = None\<rparr>" sampleWorld]
    by simp
qed

section \<open>Event update\<close>



text \<open>
  C9.  In the update, a text field supplied as the empty string gives the same response
  and the same world as the field left out, for each of the ten text fields.  And whenever
  a text field of the stored event is the empty string after an update, it was the empty
  string before: the update never sets a text field to the empty string.
\<close>

theorem put_event_empty_string_is_absent:
  "put_event env i (body\<lparr>title := Some []\<rparr>) files w = put_event env i (body\<lparr>title := None\<rparr>) files w
   \<and> put_event env i (body\<lparr>description := Some []\<rparr>) files w = put_event env i (body\<lparr>description := None\<rparr>) files w
   \<and> put_event env i (body\<lparr>date := Some []\<rparr>) files w = put_event env i (body\<lparr>date := None\<rparr>) files w
   \<and> put_event env i (body\<lparr>location := Some []\<rparr>) files w = put_event env i (body\<lparr>location := None\<rparr>) files w
   \<and> put_event env i (body\<lparr>category := Some []\<rparr>) files w = put_event env i (body\<lparr>category := None\<rparr>) files w
   \<and> put_event env i (body\<lparr>address := Some []\<rparr>) files w = put_event env i (body\<lparr>address := None\<rparr>) files w
   \<and> put_event env i (body\<lparr>standardPrice := Some []\<rparr>) files w = put_event env i (body\<lparr>standardPrice := None\<rparr>) files w
   \<and> put_event env i (body\<lparr>vipPrice := Some []\<rparr>) files w = put_event env i (body\<lparr>vipPrice := None\<rparr>) files w
   \<and> put_event env i (body\<lparr>eventTime := Some []\<rparr>) files w = put_event env i (body\<lparr>eventTime := None\<rparr>) files w
   \<and> put_event env i (body\<lparr>refreshments := Some []\<rparr>) files w = put_event env i (body\<lparr>refreshments := None\<rparr>) files w
   \<and> (\<forall>old new. find (\<lambda>e. event_id e = i) (events w) = Some old
          \<and> find (\<lambda>e. event_id e = i) (events (snd (put_event env i body files w))) = Some new \<longrightarrow>
        (title new = Some [] \<longrightarrow> title old = Some [])
        \<and> (description new = Some [] \<longrightarrow> description old = Some [])
        \<and> (date new = Some [] \<longrightarrow> date old = Some [])
        \<and> (location new = Some [] \<longrightarrow> location old = Some [])
        \<and> (category new = Some [] \<longrightarrow> category old = Some [])
        \<and> (address new = Some [] \<longrightarrow> address old = Some [])
        \<and> (standardPrice new = Some [] \<longrightarrow> standardPrice old = Some [])
        \<and> (vipPrice new = Some [] \<longrightarrow> vipPrice old = Some [])
        \<and> (eventTime new = Some [] \<longrightarrow> eventTime old = Some [])
        \<and> (refreshments new = Some [] \<longrightarrow> refreshments old = Some []))"
proof -
  have same: "\<And>b1 b2. (\<And>ev. assignFields b1 ev = assignFields b2 ev) \<Longrightarrow>
      put_event env i b1 files w = put_event env i b2 files w"
    by (simp add: put_event_def)
  have eqs: "\<And>ev. assignFields (body\<lparr>title := Some []\<rparr>) ev = assignFields (body\<lparr>title := None\<rparr>) ev"
    "\<And>ev. assignFields (body\<lparr>description := Some []\<rparr>) ev = assignFields (body\<lparr>description := None\<rparr>) ev"
    "\<And>ev. assignFields (body\<lparr>date := Some []\<rparr>) ev = assignFields (body\<lparr>date := None\<rparr>) ev"
    "\<And>ev. assignFields (body\<lparr>location := Some []\<rparr>) ev = assignFields (body\<lparr>location := None\<rparr>) ev"
    "\<And>ev. assignFields (body\<lparr>category := Some []\<rparr>) ev = assignFields (body\<lparr>category := None\<rparr>) ev"
    "\<And>ev. assignFields (body\<lparr>address := Some []\<rparr>) ev = assignFields (body\<lparr>address := None\<rparr>) ev"
    "\<And>ev. assignFields (body\<lparr>standardPrice := Some []\<rparr>) ev = assignFields (body\<lparr>standardPrice := None\<rparr>) ev"
    "\<And>ev. assignFields (body\<lparr>vipPrice := Some []\<rparr>) ev = assignFields (body\<lparr>vipPrice := None\<rparr>) ev"
    "\<And>ev. assignFields (body\<lparr>eventTime := Some []\<rparr>) ev = assignFields (body\<lparr>eventTime := None\<rparr>) ev"
    "\<And>ev. assignFields (body\<lparr>refreshments := Some []\<rparr>) ev = assignFields (body\<lparr>refreshments := None\<rparr>) ev"
    by (simp_all add: assignFields_def js_or_absent js_or_empty)
  have never: "\<And>old new. find (\<lambda>e. event_id e = i) (events w) = Some old \<Longrightarrow>
          find (\<lambda>e. event_id e = i) (events (snd (put_event env i body files w))) = Some new \<Longrightarrow>
        (title new = Some [] \<longrightarrow> title old = Some [])
        \<and> (description new = Some [] \<longrightarrow> description old = Some [])
        \<and> (date new = Some [] \<longrightarrow> date old = Some [])
        \<and> (location new = Some [] \<longrightarrow> location old = Some [])
        \<and> (category new = Some [] \<longrightarrow> category old = Some [])
        \<and> (address new = Some [] \<longrightarrow> address old = Some [])
        \<and> (standardPrice new = Some [] \<longrightarrow> standardPrice old = Some [])
        \<and> (vipPrice new = Some [] \<longrightarrow> vipPrice old = Some [])
        \<and> (eventTime new = Some [] \<longrightarrow> eventTime old = Some [])
        \<and> (refreshments new = Some [] \<longrightarrow> refreshments old = Some [])"
  proof -
    fix old new
    assume o: "find (\<lambda>e. event_id e = i) (events w) = Some old"
      and n: "find (\<lambda>e. event_id e = i) (events (snd (put_event env i body files w))) = Some new"
    from put_event_stored [OF o, of env body files] n
    have "new = old \<or> (\<exists>img logos. new = (assignFields body old)\<lparr>imageUrl := img, sponsorLogos := logos\<rparr>)"
      by auto
    then show "(title new = Some [] \<longrightarrow> title old = Some [])
        \<and> (description new = Some [] \<longrightarrow> description old = Some [])
        \<and> (date new = Some [] \<longrightarrow> date old = Some [])
        \<and> (location new = Some [] \<longrightarrow> location old = Some [])
        \<and> (category new = Some [] \<longrightarrow> category old = Some [])
        \<and> (address new = Some [] \<longrightarrow> address old = Some [])
        \<and> (standardPrice new = Some [] \<longrightarrow> standardPrice old = Some [])
        \<and> (vipPrice new = Some [] \<longrightarrow> vipPrice old = Some [])
        \<and> (eventTime new = Some [] \<longrightarrow> eventTime old = Some [])
        \<and> (refreshments new = Some [] \<longrightarrow> refreshments old = Some [])"
      by (auto simp: assignFields_def dest: js_or_never_empty)
  qed
  show ?thesis
    using same [OF eqs(1)] same [OF eqs(2)] same [OF eqs(3)] same [OF eqs(4)] same [OF eqs(5)]
      same [OF eqs(6)] same [OF eqs(7)] same [OF eqs(8)] same [OF eqs(9)] same [OF eqs(10)] never
    by blast
qed

theorem put_event_empty_string_is_absent_witness:
  "put_event sampleEnv ''aaaaaaaaaaaaaaaaaaaaaaaa'' (sampleUpdate\<lparr>title := Some []\<rparr>) sampleFiles sampleWorld
     = put_event sampleEnv ''aaaaaaaaaaaaaaaaaaaaaaaa'' (sampleUpdate\<lparr>title := None\<rparr>) sampleFiles sampleWorld
   \<and> find (\<lambda>e. event_id e = ''aaaaaaaaaaaaaaaaaaaaaaaa'') (events sampleWorld) = Some sampleEvent
   \<and> find (\<lambda>e. event_id e = ''aaaaaaaaaaaaaaaaaaaaaaaa'')
        (events (snd (put_event sampleEnv ''aaaaaaaaaaaaaaaaaaaaaaaa'' sampleUpdate sampleFiles sampleWorld)))
      = Some ((assignFields sampleUpdate sampleEvent)\<lparr>imageUrl := ''https://media.example/events/img2''\<rparr>)
   \<and> refreshments sampleUpdate = Some []
   \<and> refreshments (assignFields sampleUpdate sampleEvent) = Some []
   \<and> refreshments sampleEvent = Some []"
proof -
  note t = put_event_empty_string_is_absent
             [of sampleEnv "''aaaaaaaaaaaaaaaaaaaaaaaa''" sampleUpdate sampleFiles sampleWorld]
  have h: "find (\<lambda>e. event_id e = ''aaaaaaaaaaaaaaaaaaaaaaaa'') (events sampleWorld) = Some sampleEvent"
    by (simp add: sampleWorld_def sampleEvent_def)
  have i: "event_id (assignFields sampleUpdate sampleEvent) = ''aaaaaaaaaaaaaaaaaaaaaaaa''"
    by (simp add: assignFields_def sampleEvent_def)
  have f: "find (\<lambda>e. event_id e = ''aaaaaaaaaaaaaaaaaaaaaaaa'')
        (events (snd (put_event sampleEnv ''aaaaaaaaaaaaaaaaaaaaaaaa'' sampleUpdate sampleFiles sampleWorld)))
      = Some ((assignFields sampleUpdate sampleEvent)\<lparr>imageUrl := ''https://media.example/events/img2''\<rparr>)"
    by (simp add: sample_put i)
  have u: "refreshments sampleUpdate = Some []" by (simp add: sampleUpdate_def)
  have r: "refreshments (assignFields sampleUpdate sampleEvent) = Some []"
    by (simp add: assignFields_def sampleUpdate_def sampleEvent_def js_or_def truthy_def)
  have "refreshments sampleEvent = Some []"
    using t by (simp add: h f r)
  with t h f u r show ?thesis by simp
qed

section \<open>Creating and reading an event\<close>

text \<open>
  C7.  When a creation request is answered with status 201 and the saved event, reading
  the event under the identifier of that answer returns the same event (provided the
  identifier has the 24-character form and the lookup does not reject), and each of the
  ten text fields of the event has the value submitted.
\<close>

theorem create_then_get_roundtrip:
  assumes "post_add env body files w = (Response 201 (EventDoc saved), w1)"
    and "isObjectIdHex (event_id saved)"
    and "\<not> dbThrows env (EventFindById (event_id saved))"
  shows "get_event env (event_id saved) w1
           = (Response 200 (EventDoc saved), logged (EventFindById (event_id saved)) w1)
     \<and> title saved = title body \<and> description saved = description body \<and> date saved = date body
     \<and> location saved = location body \<and> category saved = category body \<and> address saved = address body
     \<and> standardPrice saved = standardPrice body \<and> vipPrice saved = vipPrice body
     \<and> eventTime saved = eventTime body \<and> refreshments saved = refreshments body"
proof -
  note c = post_add_created [OF assms(1)]
  from c have f: "find (\<lambda>e. event_id e = event_id saved) (events w1) = Some saved" by blast
  have "get_event env (event_id saved) w1
           = (Response 200 (EventDoc saved), logged (EventFindById (event_id saved)) w1)"
    by (simp add: get_event_def io_defs Event_findById_def assms(2,3) f)
  with c show ?thesis by blast
qed

theorem create_then_get_roundtrip_witness:
  "post_add sampleEnv sampleCreate sampleFiles sampleWorld
     = (Response 201 (EventDoc sampleCreated),
        \<lparr>events = [sampleEvent, sampleCreated], bookings = [sampleBooking],
         dbLog = [EventInsert ''cccccccccccccccccccccccc''],
         uploadLog = [(''events'', ''img2'')], outbox = []\<rparr>)
   \<and> isObjectIdHex (event_id sampleCreated)
   \<and> \<not> dbThrows sampleEnv (EventFindById (event_id sampleCreated))
   \<and> get_event sampleEnv (event_id sampleCreated)
        \<lparr>events = [sampleEvent, sampleCreated], bookings = [sampleBooking],
         dbLog = [EventInsert ''cccccccccccccccccccccccc''],
         uploadLog = [(''events'', ''img2'')], outbox = []\<rparr>
      = (Response 200 (EventDoc sampleCreated),
         logged (EventFindById (event_id sampleCreated))
           \<lparr>events = [sampleEvent, sampleCreated], bookings = [sampleBooking],
            dbLog = [EventInsert ''cccccccccccccccccccccccc''],
            uploadLog = [(''events'', ''img2'')], outbox = []\<rparr>)
   \<and> title sampleCreated = title sampleCreate
   \<and> date sampleCreated = date sampleCreate
   \<and> title sampleCreate = Some ''Concert''
   \<and> date sampleCreate = Some ''2025-01-01''"
proof -
  have i: "event_id sampleCreated = ''cccccccccccccccccccccccc''" by (simp add: sampleCreated_def)
  have x: "isObjectIdHex (event_id sampleCreated)" by (simp add: i hex_c)
  have d: "\<not> dbThrows sampleEnv (EventFindById (event_id sampleCreated))" by (simp add: sampleEnv_def)
  have s: "title sampleCreate = Some ''Concert''" "date sampleCreate = Some ''2025-01-01''"
    by (simp_all add: sampleCreate_def)
  from create_then_get_roundtrip [OF sample_add x d] sample_add x d s show ?thesis by simp
qed

section \<open>Sending the ticket\<close>

text \<open>
  C8, as the claim states it, fails on the first version of the route: a request without
  \<^verbatim>\<open>htmlContent\<close> for a stored booking is answered with status 400 and nothing is sent.
\<close>

theorem send_email_without_markup_counterexample:
  "sampleBooking \<in> set (bookings sampleWorld)
   \<and> booking_id sampleBooking = ''bbbbbbbbbbbbbbbbbbbbbbbb''
   \<and> post_send_email_v1 sampleEnv ''bbbbbbbbbbbbbbbbbbbbbbbb''
        \<lparr>subject = Some ''Your Ticket'', message = Some ''Here is your ticket'', htmlContent = None\<rparr>
        sampleWorld
      = (Response 400 (Message ''htmlContent is required''), sampleWorld)
   \<and> outbox sampleWorld = []"
  by (simp add: post_send_email_v1_def io_defs sampleWorld_def sampleBooking_def)

text \<open>
  C8, amended.  Second version: for a booking stored under the identifier, when the
  lookup, the QR encoder and the transport do not fail, exactly one message is appended
  to the outbox; it is addressed to the stored address of the booking and carries as its
  one attachment the QR code of the URL \<^verbatim>\<open>CLIENT_URI/verify-ticket/<ticket number>\<close>; when
  no booking has the identifier the answer is status 404 and nothing is sent.  First
  version: without a non-empty \<^verbatim>\<open>htmlContent\<close> the answer is status 400 and the world is
  left as it was; with it, a stored booking gets exactly one message, addressed to its
  stored address, whose markup is the supplied one with the first \<^verbatim>\<open>{{QR_CODE}}\<close> replaced
  by the data URL of the QR code of \<^verbatim>\<open>https://your-domain.com/verify-ticket/<ticket number>\<close>,
  and an identifier without booking is answered with status 404 and nothing is sent.
\<close>

theorem send_email_dispatch:
  "(\<forall>b qr. find (\<lambda>x. booking_id x = i) (bookings w) = Some b
         \<and> \<not> dbThrows env (BookingFindByIdPopulate i)
         \<and> toBuffer env (verificationURL_v2 env b) = Some qr
         \<and> \<not> sendMailThrows env (ticketMail_v2 env body (populate w b) qr) \<longrightarrow>
       post_send_email_v2 env i body w
         = (Response 200 (EmailSent ''Email sent successfully'' None),
            (logged (BookingFindByIdPopulate i) w)
              \<lparr>outbox := outbox w @ [ticketMail_v2 env body (populate w b) qr]\<rparr>)
       \<and> mail_to (ticketMail_v2 env body (populate w b) qr) = emailAddress b
       \<and> map content (mail_attachments (ticketMail_v2 env body (populate w b) qr)) = [qr]
       \<and> verificationURL_v2 env b = tpl (CLIENT_URI env) @ ''/verify-ticket/'' @ showInt (ticketNumber b))
   \<and> ((\<forall>x\<in>set (bookings w). booking_id x \<noteq> i) \<and> \<not> dbThrows env (BookingFindByIdPopulate i) \<longrightarrow>
       post_send_email_v2 env i body w
         = (Response 404 (Message ''Booking not found''), logged (BookingFindByIdPopulate i) w))
   \<and> (\<not> truthy (htmlContent body) \<longrightarrow>
       post_send_email_v1 env i body w = (Response 400 (Message ''htmlContent is required''), w))
   \<and> (\<forall>h b qr. htmlContent body = Some h \<and> h \<noteq> []
         \<and> find (\<lambda>x. booking_id x = i) (bookings w) = Some b
         \<and> \<not> dbThrows env (BookingFindById i)
         \<and> toDataURL env (verificationURL_v1 b) = Some qr
         \<and> \<not> sendMailThrows env (ticketMail_v1 env body h b qr) \<longrightarrow>
       post_send_email_v1 env i body w
         = (Response 200 (EmailSent ''Email sent successfully'' (Some qr)),
            (logged (BookingFindById i) w)\<lparr>outbox := outbox w @ [ticketMail_v1 env body h b qr]\<rparr>)
       \<and> mail_to (ticketMail_v1 env body h b qr) = emailAddress b
       \<and> mail_html (ticketMail_v1 env body h b qr) = Markup (js_replace h ''{{QR_CODE}}'' qr)
       \<and> verificationURL_v1 b = ''https://your-domain.com/verify-ticket/'' @ showInt (ticketNumber b))
   \<and> (truthy (htmlContent body) \<and> (\<forall>x\<in>set (bookings w). booking_id x \<noteq> i)
         \<and> \<not> dbThrows env (BookingFindById i) \<longrightarrow>
       post_send_email_v1 env i body w
         = (Response 404 (Message ''Booking not found''), logged (BookingFindById i) w))"
proof (intro conjI allI impI; (elim conjE)?)
  fix b qr
  assume "find (\<lambda>x. booking_id x = i) (bookings w) = Some b"
    "\<not> dbThrows env (BookingFindByIdPopulate i)"
    "toBuffer env (verificationURL_v2 env b) = Some qr"
    "\<not> sendMailThrows env (ticketMail_v2 env body (populate w b) qr)"
  then show "post_send_email_v2 env i body w
         = (Response 200 (EmailSent ''Email sent successfully'' None),
            (logged (BookingFindByIdPopulate i) w)
              \<lparr>outbox := outbox w @ [ticketMail_v2 env body (populate w b) qr]\<rparr>)"
    by (rule send_v2_found)
  show "mail_to (ticketMail_v2 env body (populate w b) qr) = emailAddress b"
    by (simp add: ticketMail_v2_def populate_def)
  show "map content (mail_attachments (ticketMail_v2 env body (populate w b) qr)) = [qr]"
    by (simp add: ticketMail_v2_def)
  show "verificationURL_v2 env b = tpl (CLIENT_URI env) @ ''/verify-ticket/'' @ showInt (ticketNumber b)"
    by (simp add: verificationURL_v2_def)
next
  assume "\<forall>x\<in>set (bookings w). booking_id x \<noteq> i" "\<not> dbThrows env (BookingFindByIdPopulate i)"
  then show "post_send_email_v2 env i body w
         = (Response 404 (Message ''Booking not found''), logged (BookingFindByIdPopulate i) w)"
    by (rule send_v2_missing)
next
  assume "\<not> truthy (htmlContent body)"
  then show "post_send_email_v1 env i body w = (Response 400 (Message ''htmlContent is required''), w)"
    by (rule send_v1_no_markup)
next
  fix h b qr
  assume "htmlContent body = Some h" "h \<noteq> []"
    "find (\<lambda>x. booking_id x = i) (bookings w) = Some b"
    "\<not> dbThrows env (BookingFindById i)"
    "toDataURL env (verificationURL_v1 b) = Some qr"
    "\<not> sendMailThrows env (ticketMail_v1 env body h b qr)"
  then show "post_send_email_v1 env i body w
         = (Response 200 (EmailSent ''Email sent successfully'' (Some qr)),
            (logged (BookingFindById i) w)\<lparr>outbox := outbox w @ [ticketMail_v1 env body h b qr]\<rparr>)"
    by (rule send_v1_found)
  show "mail_to (ticketMail_v1 env body h b qr) = emailAddress b"
    by (simp add: ticketMail_v1_def)
  show "mail_html (ticketMail_v1 env body h b qr) = Markup (js_replace h ''{{QR_CODE}}'' qr)"
    by (simp add: ticketMail_v1_def)
  show "verificationURL_v1 b = ''https://your-domain.com/verify-ticket/'' @ showInt (ticketNumber b)"
    by (simp add: verificationURL_v1_def)
next
  assume "truthy (htmlContent body)" "\<forall>x\<in>set (bookings w). booking_id x \<noteq> i"
    "\<not> dbThrows env (BookingFindById i)"
  then show "post_send_email_v1 env i body w
         = (Response 404 (Message ''Booking not found''), logged (BookingFindById i) w)"
    by (rule send_v1_missing)
qed

theorem send_email_dispatch_witness:
  "find (\<lambda>x. booking_id x = ''bbbbbbbbbbbbbbbbbbbbbbbb'') (bookings sampleWorld) = Some sampleBooking
   \<and> toBuffer sampleEnv (verificationURL_v2 sampleEnv sampleBooking)
        = Some ''PNG:https://client.example/verify-ticket/550000''
   \<and> post_send_email_v2 sampleEnv ''bbbbbbbbbbbbbbbbbbbbbbbb'' sampleEmailBody sampleWorld
        = (Response 200 (EmailSent ''Email sent successfully'' None),
           (logged (BookingFindByIdPopulate ''bbbbbbbbbbbbbbbbbbbbbbbb'') sampleWorld)
             \<lparr>outbox := [ticketMail_v2 sampleEnv sampleEmailBody (sampleBooking, Some sampleEvent)
                           ''PNG:https://client.example/verify-ticket/550000'']\<rparr>)
   \<and> mail_to (ticketMail_v2 sampleEnv sampleEmailBody (sampleBooking, Some sampleEvent)
                ''PNG:https://client.example/verify-ticket/550000'') = Some ''ann@example.com''
   \<and> htmlContent sampleEmailBody = Some ''<img src={{QR_CODE}}>''
   \<and> toDataURL sampleEnv (verificationURL_v1 sampleBooking)
        = Some ''data:image/png;base64,https://your-domain.com/verify-ticket/550000''
   \<and> post_send_email_v1 sampleEnv ''bbbbbbbbbbbbbbbbbbbbbbbb'' sampleEmailBody sampleWorld
        = (Response 200 (EmailSent ''Email sent successfully''
              (Some ''data:image/png;base64,https://your-domain.com/verify-ticket/550000'')),
           (logged (BookingFindById ''bbbbbbbbbbbbbbbbbbbbbbbb'') sampleWorld)
             \<lparr>outbox := [ticketMail_v1 sampleEnv sampleEmailBody ''<img src={{QR_CODE}}>'' sampleBooking
                           ''data:image/png;base64,https://your-domain.com/verify-ticket/550000'']\<rparr>)
   \<and> mail_to (ticketMail_v1 sampleEnv sampleEmailBody ''<img src={{QR_CODE}}>'' sampleBooking
                ''data:image/png;base64,https://your-domain.com/verify-ticket/550000'')
        = Some ''ann@example.com''
   \<and> mail_html (ticketMail_v1 sampleEnv sampleEmailBody ''<img src={{QR_CODE}}>'' sampleBooking
                ''data:image/png;base64,https://your-domain.com/verify-ticket/550000'')
        = Markup ''<img src=data:image/png;base64,https://your-domain.com/verify-ticket/550000>''"
proof -
  note t = send_email_dispatch
             [of "''bbbbbbbbbbbbbbbbbbbbbbbb''" sampleWorld sampleEnv sampleEmailBody]
  have h: "find (\<lambda>x. booking_id x = ''bbbbbbbbbbbbbbbbbbbbbbbb'') (bookings sampleWorld) = Some sampleBooking"
    by (simp add: sampleWorld_def sampleBooking_def)
  have p: "populate sampleWorld sampleBooking = (sampleBooking, Some sampleEvent)"
    by (simp add: populate_def sampleWorld_def sampleBooking_def sampleEvent_def)
  have d: "\<And>op. \<not> dbThrows sampleEnv op" "\<And>m. \<not> sendMailThrows sampleEnv m"
    by (simp_all add: sampleEnv_def)
  have u2: "verificationURL_v2 sampleEnv sampleBooking = ''https://client.example/verify-ticket/550000''"
    by (simp add: verificationURL_v2_def sample_ticket_text) (simp add: sampleEnv_def tpl_def)
  have q2: "toBuffer sampleEnv (verificationURL_v2 sampleEnv sampleBooking)
        = Some ''PNG:https://client.example/verify-ticket/550000''"
    by (simp add: u2) (simp add: sampleEnv_def)
  have u1: "verificationURL_v1 sampleBooking = ''https://your-domain.com/verify-ticket/550000''"
    by (simp add: verificationURL_v1_def sample_ticket_text)
  have q1: "toDataURL sampleEnv (verificationURL_v1 sampleBooking)
        = Some ''data:image/png;base64,https://your-domain.com/verify-ticket/550000''"
    by (simp add: u1) (simp add: sampleEnv_def)
  have c: "htmlContent sampleEmailBody = Some ''<img src={{QR_CODE}}>''"
    by (simp add: sampleEmailBody_def)
  have a: "emailAddress sampleBooking = Some ''ann@example.com''" by (simp add: sampleBooking_def)
  have o: "outbox sampleWorld = []" by (simp add: sampleWorld_def)
  from t h d q2 q1 c show ?thesis
    by (simp add: p a o sample_replace)
qed

end
